theory Spec2Isabelle
  imports Main
begin

section \<open>Values exchanged with the bridge server\<close>

text \<open>
  Request bodies are built with \<^verbatim>\<open>JSON.stringify\<close> from object literals; a field whose
  value is \<^verbatim>\<open>undefined\<close> is left out of the text, so a body is the list of the fields
  that are present.
\<close>

datatype json = JString string | JBool bool | JNumber int | JObject "(string \<times> json) list"

datatype request = GET string | POST string "(string \<times> json) list"

text \<open>
  What an awaited \<^verbatim>\<open>fetch\<close> gives back: it throws (\<open>NetworkError\<close> with the error's
  message), or it returns a response with its \<^verbatim>\<open>ok\<close> flag, its \<^verbatim>\<open>statusText\<close> and
  what reading the body gives: \<open>Inl e\<close> when reading it throws \<open>e\<close>, \<open>Inr v\<close> the
  value the code reads from the parsed body.
\<close>

datatype 'a fetched = NetworkError string | Http bool string "string + 'a"

text \<open>
  An envelope as a client reads it after \<^verbatim>\<open>response.json()\<close>: a field that the object
  does not have is \<open>None\<close> (\<^verbatim>\<open>undefined\<close>). The fields \<^verbatim>\<open>from\<close> and \<^verbatim>\<open>output\<close> are called
  \<open>msg_from\<close> and \<open>msg_output\<close>, \<^verbatim>\<open>method\<close> and \<^verbatim>\<open>id\<close> are \<open>rpc_method\<close> and
  \<open>msg_id\<close>; \<open>messages\<close> holds the (content, from) pairs of a batch, \<open>params\<close> the text
  fields of \<^verbatim>\<open>message.params\<close>.
  Fields that are present hold text (a boolean for \<^verbatim>\<open>success\<close>, a number for \<^verbatim>\<open>id\<close>).
\<close>

record message =
  mtype :: string
  path :: "string option"
  content :: "string option"
  error :: "string option"
  success :: "bool option"
  command :: "string option"
  msg_output :: "string option"
  msg_from :: "string option"
  messages :: "(string option \<times> string option) list option"
  rpc_method :: "string option"
  params :: "(string \<times> string) list option"
  msg_id :: "int option"

definition envelope :: "string \<Rightarrow> message" where
  "envelope t = \<lparr>mtype = t, path = None, content = None, error = None, success = None,
     command = None, msg_output = None, msg_from = None, messages = None,
     rpc_method = None, params = None, msg_id = None\<rparr>"

text \<open>A value inside a template literal: \<^verbatim>\<open>undefined\<close> prints as that word.\<close>

definition str :: "string option \<Rightarrow> string" where
  "str v = (case v of None \<Rightarrow> ''undefined'' | Some s \<Rightarrow> s)"

text \<open>Truthiness of a string-valued field: absent and empty are both falsy.\<close>

definition truthy :: "string option \<Rightarrow> bool" where
  "truthy v = (case v of None \<Rightarrow> False | Some s \<Rightarrow> s \<noteq> [])"

text \<open>A non-negative integer inside a template literal: its decimal digits.\<close>

definition digit :: "nat \<Rightarrow> char" where
  "digit d = char_of (48 + d)"

fun decimal :: "nat \<Rightarrow> string" where
  "decimal n = (if n < 10 then [digit n] else decimal (n div 10) @ [digit (n mod 10)])"

declare decimal.simps [simp del]

definition field :: "string \<Rightarrow> string option \<Rightarrow> (string \<times> json) list" where
  "field name v = (case v of None \<Rightarrow> [] | Some s \<Rightarrow> [(name, JString s)])"

section \<open>State shared by both polling clients\<close>

text \<open>
  Both classes keep \<^verbatim>\<open>connected\<close> and \<^verbatim>\<open>pollInterval\<close> (here: the period in
  milliseconds of the armed interval, \<open>None\<close> when none is armed). The other fields
  record what the class does to the outside: the delays of the armed
  \<^verbatim>\<open>setTimeout(() => this.connectToServer(), 5000)\<close> timers, the lines given to the
  logging sink, the HTTP requests issued, and the reasons of rejected promises that no code
  handles.

  A method call and a run of a timer callback are each taken as one step: what they do
  around their \<^verbatim>\<open>await\<close>s is not interleaved with other steps.
\<close>

record endpoint =
  connected :: bool
  pollInterval :: "nat option"
  reconnects :: "nat list"
  console :: "string list"
  sent :: "request list"
  unhandled :: "string list"

definition newline :: string where
  "newline = [CHR 0x0A]"

definition errorMsg :: "string \<Rightarrow> string" where
  "errorMsg url = newline @
     ''ERROR: Cannot connect to Claude-Cline bridge server at '' @ url @ newline @ newline @
     ''Please ensure the server is running by:'' @ newline @
     ''1. Open a terminal'' @ newline @
     ''2. Navigate to: r:/devR/mcp/Claude-Cline-Bridge'' @ newline @
     ''3. Run: npm start'' @ newline @ newline @
     ''Or manually start with: node simplified-bridge.js'' @ newline @
     ''            ''"

section \<open>The client of claude-mcp-client.js\<close>

datatype result = FileText "string option" | UpdateOk bool string | CommandOut "string option" bool

datatype settled = Pending | Resolved result | Rejected string

text \<open>The variables the callback of a call's \<^verbatim>\<open>setTimeout\<close> closes over.\<close>

datatype timer = FileTimeout string | UpdateTimeout | CommandTimeout string

text \<open>
  A correlated call number \<open>k\<close> creates promise \<open>k\<close>. A handler stored in one of the two
  maps is the closure of one call, so the maps hold call numbers. \<open>timeouts\<close> are the armed
  timers of the calls with their delay, \<open>checkIntervals\<close> the armed intervals of
  \<^verbatim>\<open>updateFile\<close> calls with the path each looks for and their period, and \<open>invoked\<close>
  the calls made to observers (an observer is known by its number; it is assumed to return
  normally).
\<close>

record client = endpoint +
  serverUrl :: string
  messageHandlers :: "nat list"
  fileContentHandlers :: "string \<rightharpoonup> nat"
  commandResultHandlers :: "string \<rightharpoonup> nat"
  promises :: "settled list"
  timeouts :: "(nat \<times> timer \<times> nat) list"
  checkIntervals :: "(nat \<times> string \<times> nat) list"
  invoked :: "(nat \<times> string option \<times> string option) list"

definition log :: "string \<Rightarrow> client \<Rightarrow> client" where
  "log line c = c\<lparr>console := console c @ [line]\<rparr>"

definition send :: "request \<Rightarrow> client \<Rightarrow> client" where
  "send r c = c\<lparr>sent := sent c @ [r]\<rparr>"

text \<open>Settling a promise a second time has no effect.\<close>

definition settle :: "nat \<Rightarrow> settled \<Rightarrow> client \<Rightarrow> client" where
  "settle k v c =
     (if k < length (promises c) \<and> promises c ! k = Pending
      then c\<lparr>promises := (promises c)[k := v]\<rparr> else c)"

definition clearTimeout :: "nat \<Rightarrow> client \<Rightarrow> client" where
  "clearTimeout k c = c\<lparr>timeouts := filter (\<lambda>t. fst t \<noteq> k) (timeouts c)\<rparr>"

definition clearInterval :: "nat \<Rightarrow> client \<Rightarrow> client" where
  "clearInterval k c = c\<lparr>checkIntervals := filter (\<lambda>t. fst t \<noteq> k) (checkIntervals c)\<rparr>"

text \<open>The closure \<^verbatim>\<open>(content, error) => {...}\<close> that \<^verbatim>\<open>getFile\<close> registers.\<close>

definition fileHandler :: "nat \<Rightarrow> string option \<Rightarrow> string option \<Rightarrow> client \<Rightarrow> client" where
  "fileHandler k cont err c =
     (if truthy err then settle k (Rejected (str err)) (clearTimeout k c)
      else settle k (Resolved (FileText cont)) (clearTimeout k c))"

text \<open>
  The closure that \<^verbatim>\<open>executeCommand\<close> registers; it resolves with
  \<^verbatim>\<open>success || true\<close>.
\<close>

definition or_true :: "bool option \<Rightarrow> bool" where
  "or_true s = (case s of Some True \<Rightarrow> True | _ \<Rightarrow> True)"

definition cmdHandler ::
  "nat \<Rightarrow> string option \<Rightarrow> string option \<Rightarrow> bool option \<Rightarrow> client \<Rightarrow> client" where
  "cmdHandler k out err succ c =
     (if truthy err then settle k (Rejected (str err)) (clearTimeout k c)
      else settle k (Resolved (CommandOut out (or_true succ))) (clearTimeout k c))"

text \<open>\<^verbatim>\<open>this.messageHandlers.forEach(handler => handler(a, b))\<close>\<close>

definition notify :: "string option \<Rightarrow> string option \<Rightarrow> client \<Rightarrow> client" where
  "notify a b c = c\<lparr>invoked := invoked c @ map (\<lambda>h. (h, a, b)) (messageHandlers c)\<rparr>"

definition lookup :: "(string \<rightharpoonup> nat) \<Rightarrow> string option \<Rightarrow> nat option" where
  "lookup m key = (case key of None \<Rightarrow> None | Some p \<Rightarrow> m p)"

definition delete :: "string option \<Rightarrow> (string \<rightharpoonup> nat) \<Rightarrow> (string \<rightharpoonup> nat)" where
  "delete key m = (case key of None \<Rightarrow> m | Some p \<Rightarrow> m(p := None))"

text \<open>
  \<^verbatim>\<open>handleMessage\<close>: \<open>Inl e\<close> when it throws (a batch without its \<^verbatim>\<open>messages\<close>
  array), \<open>Inr\<close> the client after the call otherwise.
\<close>

definition handleMessage :: "message \<Rightarrow> client \<Rightarrow> string + client" where
  "handleMessage m c =
     (if mtype m = ''fileContent'' then
        (case lookup (fileContentHandlers c) (path m) of
           None \<Rightarrow> Inr c
         | Some k \<Rightarrow>
             (let c1 = fileHandler k (content m) (error m) c
              in Inr (c1\<lparr>fileContentHandlers := delete (path m) (fileContentHandlers c1)\<rparr>)))
      else if mtype m = ''updateCodeResult'' then
        (let c1 = log (''File update '' @ (if success m = Some True then ''succeeded'' else ''failed'')
                        @ '': '' @ str (path m)) c
         in Inr (if truthy (error m) then log (''Update error: '' @ str (error m)) c1 else c1))
      else if mtype m = ''fileChanged'' then
        Inr (notify (Some (''File changed: '' @ str (path m))) (Some ''system'')
               (log (''File changed externally: '' @ str (path m)) c))
      else if mtype m = ''commandResult'' then
        (case lookup (commandResultHandlers c) (command m) of
           None \<Rightarrow> Inr c
         | Some k \<Rightarrow>
             (let c1 = cmdHandler k (msg_output m) (error m) (success m) c
              in Inr (c1\<lparr>commandResultHandlers := delete (command m) (commandResultHandlers c1)\<rparr>)))
      else if mtype m = ''message'' then
        Inr (notify (content m) (msg_from m) c)
      else if mtype m = ''messages'' then
        (case messages m of
           None \<Rightarrow> Inl ''Cannot read properties of undefined (reading forEach)''
         | Some ms \<Rightarrow> Inr (fold (\<lambda>(a, b). notify a b) ms c))
      else Inr c)"

text \<open>
  \<^verbatim>\<open>messages.forEach(message => this.handleMessage(message))\<close>: the first call that
  throws ends the loop, and what the earlier calls did stays done.
\<close>

fun dispatch :: "message list \<Rightarrow> client \<Rightarrow> string option \<times> client" where
  "dispatch [] c = (None, c)"
| "dispatch (m # ms) c =
     (case handleMessage m c of Inl e \<Rightarrow> (Some e, c) | Inr c1 \<Rightarrow> dispatch ms c1)"

section \<open>Correlated and fire-and-forget calls of the client\<close>

text \<open>
  An \<^verbatim>\<open>async\<close> method gives back a promise. \<open>Inl e\<close>: the promise is rejected with
  \<open>e\<close> before the method returns control for a reply; \<open>Inr k\<close>: it is the promise \<open>k\<close>
  of the client state, settled later. \<open>now\<close> is \<^verbatim>\<open>Date.now()\<close>, \<open>resp\<close> what the
  awaited \<^verbatim>\<open>fetch\<close> gives.
\<close>

definition invoke :: "string \<Rightarrow> (string \<times> json) list \<Rightarrow> nat \<Rightarrow> client \<Rightarrow> request" where
  "invoke name args now c =
     POST (serverUrl c @ ''/mcp/invoke'')
       [(''method'', JString name), (''params'', JObject args), (''id'', JNumber (int now))]"

definition getFile :: "string \<Rightarrow> nat \<Rightarrow> 'a fetched \<Rightarrow> client \<Rightarrow> (string + nat) \<times> client" where
  "getFile p now resp c =
     (if \<not> connected c then (Inl ''Not connected to bridge server'', c)
      else
        (let c1 = send (invoke ''getFile'' [(''path'', JString p)] now c) c
         in case resp of
              NetworkError e \<Rightarrow> (Inl e, log (''Error getting file '' @ p @ '': '' @ e) c1)
            | Http ok statusText body \<Rightarrow>
                if \<not> ok then
                  (Inl (''Failed to request file: '' @ statusText),
                   log (''Error getting file '' @ p @ '': Failed to request file: '' @ statusText) c1)
                else
                  (let k = length (promises c1)
                   in (Inr k,
                       c1\<lparr>promises := promises c1 @ [Pending],
                          timeouts := timeouts c1 @ [(k, FileTimeout p, 30000)],
                          fileContentHandlers := (fileContentHandlers c1)(p \<mapsto> k)\<rparr>))))"

definition updateFile ::
  "string \<Rightarrow> string \<Rightarrow> nat \<Rightarrow> 'a fetched \<Rightarrow> client \<Rightarrow> (string + nat) \<times> client" where
  "updateFile p cont now resp c =
     (if \<not> connected c then (Inl ''Not connected to bridge server'', c)
      else
        (let c1 = send (invoke ''updateFile'' [(''path'', JString p), (''content'', JString cont)] now c) c
         in case resp of
              NetworkError e \<Rightarrow> (Inl e, log (''Error updating file '' @ p @ '': '' @ e) c1)
            | Http ok statusText body \<Rightarrow>
                if \<not> ok then
                  (Inl (''Failed to update file: '' @ statusText),
                   log (''Error updating file '' @ p @ '': Failed to update file: '' @ statusText) c1)
                else
                  (let k = length (promises c1)
                   in (Inr k,
                       c1\<lparr>promises := promises c1 @ [Pending],
                          timeouts := timeouts c1 @ [(k, UpdateTimeout, 30000)],
                          checkIntervals := checkIntervals c1 @ [(k, p, 1000)]\<rparr>))))"

definition executeCommand :: "string \<Rightarrow> nat \<Rightarrow> 'a fetched \<Rightarrow> client \<Rightarrow> (string + nat) \<times> client" where
  "executeCommand cmd now resp c =
     (if \<not> connected c then (Inl ''Not connected to bridge server'', c)
      else
        (let c1 = send (invoke ''executeCommand'' [(''command'', JString cmd)] now c) c
         in case resp of
              NetworkError e \<Rightarrow>
                (Inl e, log (''Error executing command '' @ [CHR 0x22] @ cmd @ [CHR 0x22] @ '': '' @ e) c1)
            | Http ok statusText body \<Rightarrow>
                if \<not> ok then
                  (Inl (''Failed to execute command: '' @ statusText),
                   log (''Error executing command '' @ [CHR 0x22] @ cmd @ [CHR 0x22]
                          @ '': Failed to execute command: '' @ statusText) c1)
                else
                  (let k = length (promises c1)
                   in (Inr k,
                       c1\<lparr>promises := promises c1 @ [Pending],
                          timeouts := timeouts c1 @ [(k, CommandTimeout cmd, 60000)],
                          commandResultHandlers := (commandResultHandlers c1)(cmd \<mapsto> k)\<rparr>))))"

text \<open>
  The two calls without a reply resolve with the parsed body of the relay's answer
  (\<open>Inr (Inr v)\<close>) or are rejected (\<open>Inl e\<close>).
\<close>

definition sendMessage :: "string \<Rightarrow> 'a fetched \<Rightarrow> client \<Rightarrow> (string + 'a) \<times> client" where
  "sendMessage cont resp c =
     (if \<not> connected c then (Inl ''Not connected to bridge server'', c)
      else
        (let c1 = send (POST (serverUrl c @ ''/claude/message'')
                          [(''content'', JString cont), (''type'', JString ''text'')]) c
         in case resp of
              NetworkError e \<Rightarrow> (Inl e, log (''Error sending message: '' @ e) c1)
            | Http ok statusText body \<Rightarrow>
                if \<not> ok then
                  (Inl (''Failed to send message: '' @ statusText),
                   log (''Error sending message: Failed to send message: '' @ statusText) c1)
                else
                  (case body of
                     Inl e \<Rightarrow> (Inl e, log (''Error sending message: '' @ e) c1)
                   | Inr v \<Rightarrow> (Inr v, c1))))"

definition sendFile :: "string \<Rightarrow> string \<Rightarrow> 'a fetched \<Rightarrow> client \<Rightarrow> (string + 'a) \<times> client" where
  "sendFile name cont resp c =
     (if \<not> connected c then (Inl ''Not connected to bridge server'', c)
      else
        (let c1 = send (POST (serverUrl c @ ''/claude/file'')
                          [(''name'', JString name), (''content'', JString cont)]) c
         in case resp of
              NetworkError e \<Rightarrow> (Inl e, log (''Error sending file: '' @ e) c1)
            | Http ok statusText body \<Rightarrow>
                if \<not> ok then
                  (Inl (''Failed to send file: '' @ statusText),
                   log (''Error sending file: Failed to send file: '' @ statusText) c1)
                else
                  (case body of
                     Inl e \<Rightarrow> (Inl e, log (''Error sending file: '' @ e) c1)
                   | Inr v \<Rightarrow> (Inr v, c1))))"

text \<open>\<^verbatim>\<open>onMessage\<close> and the function it returns, which takes the handler out again.\<close>

definition onMessage :: "nat \<Rightarrow> client \<Rightarrow> client" where
  "onMessage h c = c\<lparr>messageHandlers := messageHandlers c @ [h]\<rparr>"

definition removeHandler :: "nat \<Rightarrow> client \<Rightarrow> client" where
  "removeHandler h c = c\<lparr>messageHandlers := filter (\<lambda>g. g \<noteq> h) (messageHandlers c)\<rparr>"

text \<open>
  The timer of call \<open>k\<close> fires. A timer that was cleared, or has fired, is no longer in
  \<open>timeouts\<close> and does nothing.
\<close>

definition timeoutFires :: "nat \<Rightarrow> client \<Rightarrow> client" where
  "timeoutFires k c =
     (case map_of (timeouts c) k of
        None \<Rightarrow> c
      | Some (FileTimeout p, d) \<Rightarrow>
          (let c1 = clearTimeout k c
           in settle k (Rejected ''Timeout waiting for file content'')
                (c1\<lparr>fileContentHandlers := (fileContentHandlers c1)(p := None)\<rparr>))
      | Some (UpdateTimeout, d) \<Rightarrow>
          settle k (Rejected ''Timeout waiting for file update confirmation'') (clearTimeout k c)
      | Some (CommandTimeout cmd, d) \<Rightarrow>
          (let c1 = clearTimeout k c
           in settle k (Rejected ''Timeout waiting for command result'')
                (c1\<lparr>commandResultHandlers := (commandResultHandlers c1)(cmd := None)\<rparr>)))"

section \<open>Connecting and polling\<close>

definition pollIntervalTime :: nat where
  "pollIntervalTime = 2000"

definition startPolling :: "client \<Rightarrow> client" where
  "startPolling c =
     (log (''Starting polling for messages at '' @ serverUrl c) c)
       \<lparr>pollInterval := Some pollIntervalTime\<rparr>"

text \<open>
  \<^verbatim>\<open>connectToServer\<close> once its probe of \<^verbatim>\<open>/status\<close> has come back. The body read
  from an \<^verbatim>\<open>ok\<close> response is \<^verbatim>\<open>data.uptime.toFixed(2)\<close>. The first component is the
  error the method throws, if it does.
\<close>

definition connectToServer :: "string fetched \<Rightarrow> client \<Rightarrow> string option \<times> client" where
  "connectToServer probe c =
     (let c1 = send (GET (serverUrl c @ ''/status''))
                 (log (''Connecting to bridge server at '' @ serverUrl c @ ''...'') c)
      in case probe of
           NetworkError e \<Rightarrow>
             (Some (''Bridge server not available: '' @ e), log (errorMsg (serverUrl c)) c1)
         | Http ok statusText body \<Rightarrow>
             if ok then
               (case body of
                  Inl e \<Rightarrow>
                    (Some (''Bridge server not available: '' @ e), log (errorMsg (serverUrl c)) c1)
                | Inr uptime \<Rightarrow>
                    (None,
                     (startPolling
                        (log (''Connected to server with uptime '' @ uptime @ '' seconds'') c1))
                       \<lparr>connected := True\<rparr>))
             else (None, c1))"

text \<open>
  A caller that drops the promise of \<^verbatim>\<open>connectToServer\<close> (the constructor and the
  reconnect timer both do) leaves its rejection without a handler.
\<close>

definition dropped :: "string option \<times> client \<Rightarrow> client" where
  "dropped r =
     (case fst r of None \<Rightarrow> snd r
      | Some e \<Rightarrow> (snd r)\<lparr>unhandled := unhandled (snd r) @ [e]\<rparr>)"

text \<open>
  The constructor, followed by the completion of the probe it starts.
  (\<^verbatim>\<open>connectionId\<close> is never read; \<^verbatim>\<open>pollIntervalTime\<close> is never changed.)
\<close>

definition new_client :: "string \<Rightarrow> client" where
  "new_client url =
     \<lparr>connected = False, pollInterval = None, reconnects = [], console = [], sent = [],
      unhandled = [], serverUrl = url, messageHandlers = [],
      fileContentHandlers = Map.empty, commandResultHandlers = Map.empty, promises = [],
      timeouts = [], checkIntervals = [], invoked = []\<rparr>"

definition ClaudeMCPClient :: "string \<Rightarrow> string fetched \<Rightarrow> client" where
  "ClaudeMCPClient url probe = dropped (connectToServer probe (new_client url))"

text \<open>The \<^verbatim>\<open>catch\<close> block of the poll tick.\<close>

definition pollFailed :: "string \<Rightarrow> client \<Rightarrow> client" where
  "pollFailed e c =
     (let c1 = log (''Error polling for messages: '' @ e) c
      in if connected c1
         then (log ''Lost connection to server. Will retry...'' (c1\<lparr>connected := False\<rparr>))
                \<lparr>reconnects := reconnects c1 @ [5000]\<rparr>
         else c1)"

text \<open>
  One run of the callback given to \<^verbatim>\<open>setInterval\<close> in \<^verbatim>\<open>startPolling\<close>, with what
  the two requests give back (the second is only made when the first reports updates).
\<close>

definition pollTick :: "bool fetched \<Rightarrow> message list fetched \<Rightarrow> client \<Rightarrow> client" where
  "pollTick ping drained c =
     (if pollInterval c = None then c
      else
        (let c1 = send (GET (serverUrl c @ ''/ping?client=claude'')) c
         in case ping of
              NetworkError e \<Rightarrow> pollFailed e c1
            | Http ok statusText (Inl e) \<Rightarrow> pollFailed e c1
            | Http ok statusText (Inr hasUpdates) \<Rightarrow>
                if \<not> hasUpdates then c1
                else
                  (let c2 = send (GET (serverUrl c @ ''/claude/messages'')) c1
                   in case drained of
                        NetworkError e \<Rightarrow> pollFailed e c2
                      | Http ok2 statusText2 (Inl e) \<Rightarrow> pollFailed e c2
                      | Http ok2 statusText2 (Inr ms) \<Rightarrow>
                          if ms = [] then c2
                          else
                            (let r = dispatch ms
                                       (log (''Received '' @ decimal (length ms)
                                              @ '' messages from Cline'') c2)
                             in case fst r of
                                  None \<Rightarrow> snd r
                                | Some e \<Rightarrow> pollFailed e (snd r)))))"

text \<open>The armed reconnect timer fires and its probe comes back.\<close>

definition reconnectFires :: "string fetched \<Rightarrow> client \<Rightarrow> client" where
  "reconnectFires probe c =
     (case reconnects c of
        [] \<Rightarrow> c
      | d # ds \<Rightarrow> dropped (connectToServer probe (c\<lparr>reconnects := ds\<rparr>)))"

definition cleanup :: "client \<Rightarrow> client" where
  "cleanup c =
     log ''Client disconnected from bridge server'' (c\<lparr>connected := False, pollInterval := None\<rparr>)"

text \<open>
  One run of the callback of \<^verbatim>\<open>checkInterval\<close> that the \<^verbatim>\<open>updateFile\<close> call \<open>k\<close>
  armed. The loop over the drained messages stops at the first
  \<^verbatim>\<open>updateCodeResult\<close> for the call's path; no other message is looked at further.
\<close>

definition matching :: "string \<Rightarrow> message \<Rightarrow> bool" where
  "matching p m \<longleftrightarrow> mtype m = ''updateCodeResult'' \<and> path m = Some p"

definition checkFailed :: "string \<Rightarrow> client \<Rightarrow> client" where
  "checkFailed e c = log (''Error checking update result: '' @ e) c"

definition checkTick :: "nat \<Rightarrow> bool fetched \<Rightarrow> message list fetched \<Rightarrow> client \<Rightarrow> client" where
  "checkTick k ping drained c =
     (case map_of (checkIntervals c) k of
        None \<Rightarrow> c
      | Some (p, period) \<Rightarrow>
          (let c1 = send (GET (serverUrl c @ ''/ping?client=claude'')) c
           in case ping of
                NetworkError e \<Rightarrow> checkFailed e c1
              | Http ok statusText (Inl e) \<Rightarrow> checkFailed e c1
              | Http ok statusText (Inr hasUpdates) \<Rightarrow>
                  if \<not> hasUpdates then c1
                  else
                    (let c2 = send (GET (serverUrl c @ ''/claude/messages'')) c1
                     in case drained of
                          NetworkError e \<Rightarrow> checkFailed e c2
                        | Http ok2 statusText2 (Inl e) \<Rightarrow> checkFailed e c2
                        | Http ok2 statusText2 (Inr ms) \<Rightarrow>
                            (case find (matching p) ms of
                               None \<Rightarrow> c2
                             | Some m \<Rightarrow>
                                 (let c3 = clearTimeout k (clearInterval k c2)
                                  in if success m \<noteq> Some True
                                     then settle k (Rejected (if truthy (error m) then str (error m)
                                                              else ''Failed to update file'')) c3
                                     else settle k (Resolved (UpdateOk True
                                            (''File '' @ p @ '' updated successfully''))) c3)))))"

section \<open>Runs of the client\<close>

text \<open>
  What can happen to a client, one event at a time: a method is called (with the result of
  its request), the probe started by the constructor comes back, a timer or an interval
  fires (with the results of its requests).
\<close>

datatype event =
    GetFile string nat "unit fetched"
  | UpdateFile string string nat "unit fetched"
  | ExecuteCommand string nat "unit fetched"
  | SendMessage string "unit fetched"
  | SendFile string string "unit fetched"
  | OnMessage nat
  | RemoveHandler nat
  | PollTick "bool fetched" "message list fetched"
  | CheckTick nat "bool fetched" "message list fetched"
  | TimeoutFires nat
  | ProbeReturns "string fetched"
  | ReconnectFires "string fetched"
  | Cleanup

fun step :: "event \<Rightarrow> client \<Rightarrow> client" where
  "step (GetFile p now r) c = snd (getFile p now r c)"
| "step (UpdateFile p cont now r) c = snd (updateFile p cont now r c)"
| "step (ExecuteCommand cmd now r) c = snd (executeCommand cmd now r c)"
| "step (SendMessage cont r) c = snd (sendMessage cont r c)"
| "step (SendFile name cont r) c = snd (sendFile name cont r c)"
| "step (OnMessage h) c = onMessage h c"
| "step (RemoveHandler h) c = removeHandler h c"
| "step (PollTick ping drained) c = pollTick ping drained c"
| "step (CheckTick k ping drained) c = checkTick k ping drained c"
| "step (TimeoutFires k) c = timeoutFires k c"
| "step (ProbeReturns probe) c = dropped (connectToServer probe c)"
| "step (ReconnectFires probe) c = reconnectFires probe c"
| "step Cleanup c = cleanup c"

definition run :: "event list \<Rightarrow> client \<Rightarrow> client" where
  "run es c = fold step es c"


section \<open>The client of cline-mcp-client.js\<close>

text \<open>
  The state of a \<^verbatim>\<open>ClaudeBridgeTool\<close> is an \<open>endpoint\<close>; its logging sink is
  \<^verbatim>\<open>context.log\<close>. The calls to the collaborator \<^verbatim>\<open>context\<close> (\<^verbatim>\<open>readFile\<close>,
  \<^verbatim>\<open>writeFile\<close>, \<^verbatim>\<open>executeCommand\<close>) are inputs: each one throws with a message or
  returns a text (ignored for \<^verbatim>\<open>writeFile\<close>).
\<close>

datatype outcome = Throws string | Returns string

definition BRIDGE_SERVER_URL :: string where
  "BRIDGE_SERVER_URL = ''http://localhost:2612''"

definition POLL_INTERVAL :: nat where
  "POLL_INTERVAL = 2000"

definition context_log :: "string \<Rightarrow> endpoint \<Rightarrow> endpoint" where
  "context_log line t = t\<lparr>console := console t @ [line]\<rparr>"

definition fetch :: "request \<Rightarrow> endpoint \<Rightarrow> endpoint" where
  "fetch r t = t\<lparr>sent := sent t @ [r]\<rparr>"

text \<open>
  An awaited \<^verbatim>\<open>fetch\<close> whose response is not looked at: the error it throws, if any.
\<close>

definition thrown :: "unit fetched \<Rightarrow> string option" where
  "thrown r = (case r of NetworkError e \<Rightarrow> Some e | Http ok statusText body \<Rightarrow> None)"

text \<open>
  The three request handlers. \<open>collab\<close> is the outcome of the collaborator call,
  \<open>post1\<close> the outcome of the \<^verbatim>\<open>fetch\<close> in the \<^verbatim>\<open>try\<close> block and \<open>post2\<close> of the one in
  the \<^verbatim>\<open>catch\<close> block. The result holds the error the handler throws, if any.
\<close>

definition reply :: "(string \<times> json) list \<Rightarrow> request" where
  "reply body = POST (BRIDGE_SERVER_URL @ ''/cline/message'') body"

definition handleFileRequest ::
  "message \<Rightarrow> outcome \<Rightarrow> unit fetched \<Rightarrow> unit fetched \<Rightarrow> endpoint \<Rightarrow> string option \<times> endpoint" where
  "handleFileRequest m collab post1 post2 t =
     (let failed = (\<lambda>e t1.
            (thrown post2,
             fetch (reply ([(''type'', JString ''fileContent'')] @ field ''path'' (path m)
                            @ [(''error'', JString e)])) t1))
      in case collab of
           Throws e \<Rightarrow> failed e t
         | Returns cont \<Rightarrow>
             (let t1 = fetch (reply ([(''type'', JString ''fileContent'')] @ field ''path'' (path m)
                                      @ [(''content'', JString cont)])) t
              in case thrown post1 of None \<Rightarrow> (None, t1) | Some e \<Rightarrow> failed e t1))"

definition handleUpdateCode ::
  "message \<Rightarrow> outcome \<Rightarrow> unit fetched \<Rightarrow> unit fetched \<Rightarrow> endpoint \<Rightarrow> string option \<times> endpoint" where
  "handleUpdateCode m collab post1 post2 t =
     (let failed = (\<lambda>e t1.
            (thrown post2,
             fetch (reply ([(''type'', JString ''updateCodeResult'')] @ field ''path'' (path m)
                            @ [(''success'', JBool False), (''error'', JString e)])) t1))
      in case collab of
           Throws e \<Rightarrow> failed e t
         | Returns u \<Rightarrow>
             (let t1 = fetch (reply ([(''type'', JString ''updateCodeResult'')] @ field ''path'' (path m)
                                      @ [(''success'', JBool True)])) t
              in case thrown post1 of None \<Rightarrow> (None, t1) | Some e \<Rightarrow> failed e t1))"

definition handleExecuteCommand ::
  "message \<Rightarrow> outcome \<Rightarrow> unit fetched \<Rightarrow> unit fetched \<Rightarrow> endpoint \<Rightarrow> string option \<times> endpoint" where
  "handleExecuteCommand m collab post1 post2 t =
     (let failed = (\<lambda>e t1.
            (thrown post2,
             fetch (reply ([(''type'', JString ''commandResult'')] @ field ''command'' (command m)
                            @ [(''success'', JBool False), (''error'', JString e)])) t1))
      in case collab of
           Throws e \<Rightarrow> failed e t
         | Returns out \<Rightarrow>
             (let t1 = fetch (reply ([(''type'', JString ''commandResult'')] @ field ''command'' (command m)
                                      @ [(''output'', JString out), (''success'', JBool True)])) t
              in case thrown post1 of None \<Rightarrow> (None, t1) | Some e \<Rightarrow> failed e t1))"

text \<open>
  \<^verbatim>\<open>handleMcpInvoke\<close>: the \<^verbatim>\<open>try\<close> block gives the \<^verbatim>\<open>result\<close> object or throws;
  reading a field of a missing \<^verbatim>\<open>params\<close> throws too.
\<close>

definition rpc_result :: "message \<Rightarrow> outcome \<Rightarrow> string + (string \<times> json) list" where
  "rpc_result m collab =
     (if rpc_method m = Some ''getFile'' \<or> rpc_method m = Some ''updateFile''
         \<or> rpc_method m = Some ''executeCommand''
      then (case params m of
              None \<Rightarrow> Inl ''Cannot read properties of undefined''
            | Some ps \<Rightarrow>
                (case collab of
                   Throws e \<Rightarrow> Inl e
                 | Returns v \<Rightarrow>
                     if rpc_method m = Some ''getFile'' then Inr [(''content'', JString v)]
                     else if rpc_method m = Some ''updateFile'' then Inr [(''success'', JBool True)]
                     else Inr [(''output'', JString v), (''success'', JBool True)]))
      else Inl (''Unknown MCP method: '' @ str (rpc_method m)))"

definition rpc_id :: "message \<Rightarrow> (string \<times> json) list" where
  "rpc_id m = (case msg_id m of None \<Rightarrow> [] | Some i \<Rightarrow> [(''id'', JNumber i)])"

definition handleMcpInvoke ::
  "message \<Rightarrow> outcome \<Rightarrow> unit fetched \<Rightarrow> unit fetched \<Rightarrow> endpoint \<Rightarrow> string option \<times> endpoint" where
  "handleMcpInvoke m collab post1 post2 t =
     (let failed = (\<lambda>e t1.
            (thrown post2,
             fetch (POST (BRIDGE_SERVER_URL @ ''/mcp/response'')
                      (rpc_id m @ [(''error'', JObject [(''code'', JNumber (- 32000)),
                                                        (''message'', JString e)]),
                                   (''jsonrpc'', JString ''2.0'')])) t1))
      in case rpc_result m collab of
           Inl e \<Rightarrow> failed e t
         | Inr res \<Rightarrow>
             (let t1 = fetch (POST (BRIDGE_SERVER_URL @ ''/mcp/response'')
                                (rpc_id m @ [(''result'', JObject res),
                                             (''jsonrpc'', JString ''2.0'')])) t
              in case thrown post1 of None \<Rightarrow> (None, t1) | Some e \<Rightarrow> failed e t1))"

text \<open>
  \<^verbatim>\<open>handleMessage\<close> of the tool: it logs the type, runs the handler of the type inside
  \<^verbatim>\<open>try\<close>, and logs what the handler throws.
\<close>

definition cline_handleMessage ::
  "message \<Rightarrow> outcome \<Rightarrow> unit fetched \<Rightarrow> unit fetched \<Rightarrow> endpoint \<Rightarrow> endpoint" where
  "cline_handleMessage m collab post1 post2 t =
     (let t0 = context_log (''Processing message of type: '' @ mtype m) t;
          r = (if mtype m = ''fileRequest'' then handleFileRequest m collab post1 post2 t0
               else if mtype m = ''updateCode'' then handleUpdateCode m collab post1 post2 t0
               else if mtype m = ''executeCommand'' then handleExecuteCommand m collab post1 post2 t0
               else if mtype m = ''message'' then
                 (None, context_log (''Claude: '' @ str (content m)) t0)
               else if mtype m = ''mcp_invoke'' then handleMcpInvoke m collab post1 post2 t0
               else (None, t0))
      in case fst r of
           None \<Rightarrow> snd r
         | Some e \<Rightarrow> context_log (''Error handling message: '' @ e) (snd r))"

text \<open>Connecting and polling, as in the other client.\<close>

definition cline_startPolling :: "endpoint \<Rightarrow> endpoint" where
  "cline_startPolling t =
     (context_log (''Starting polling for messages at '' @ BRIDGE_SERVER_URL) t)
       \<lparr>pollInterval := Some POLL_INTERVAL\<rparr>"

definition cline_connectToServer :: "string fetched \<Rightarrow> endpoint \<Rightarrow> string option \<times> endpoint" where
  "cline_connectToServer probe t =
     (let t1 = fetch (GET (BRIDGE_SERVER_URL @ ''/status''))
                 (context_log (''Connecting to bridge server at '' @ BRIDGE_SERVER_URL @ ''...'') t)
      in case probe of
           NetworkError e \<Rightarrow>
             (Some (''Bridge server not available: '' @ e), context_log (errorMsg BRIDGE_SERVER_URL) t1)
         | Http ok statusText body \<Rightarrow>
             if ok then
               (case body of
                  Inl e \<Rightarrow>
                    (Some (''Bridge server not available: '' @ e),
                     context_log (errorMsg BRIDGE_SERVER_URL) t1)
                | Inr uptime \<Rightarrow>
                    (None,
                     (cline_startPolling
                        (context_log (''Connected to server with uptime '' @ uptime @ '' seconds'') t1))
                       \<lparr>connected := True\<rparr>))
             else (None, t1))"

definition cline_dropped :: "string option \<times> endpoint \<Rightarrow> endpoint" where
  "cline_dropped r =
     (case fst r of None \<Rightarrow> snd r
      | Some e \<Rightarrow> (snd r)\<lparr>unhandled := unhandled (snd r) @ [e]\<rparr>)"

definition new_tool :: endpoint where
  "new_tool = \<lparr>connected = False, pollInterval = None, reconnects = [], console = [],
                sent = [], unhandled = []\<rparr>"

definition ClaudeBridgeTool :: "string fetched \<Rightarrow> endpoint" where
  "ClaudeBridgeTool probe = cline_dropped (cline_connectToServer probe new_tool)"

definition cline_pollFailed :: "string \<Rightarrow> endpoint \<Rightarrow> endpoint" where
  "cline_pollFailed e t =
     (let t1 = context_log (''Error polling for messages: '' @ e) t
      in if connected t1
         then (context_log ''Lost connection to server. Will retry...'' (t1\<lparr>connected := False\<rparr>))
                \<lparr>reconnects := reconnects t1 @ [5000]\<rparr>
         else t1)"

text \<open>
  One run of the poll callback. Each drained message comes with the outcomes of the calls
  its handler makes.
\<close>

fun handle_all ::
  "(message \<times> outcome \<times> unit fetched \<times> unit fetched) list \<Rightarrow> endpoint \<Rightarrow> endpoint" where
  "handle_all [] t = t"
| "handle_all ((m, collab, post1, post2) # ms) t =
     handle_all ms (cline_handleMessage m collab post1 post2 t)"

definition cline_pollTick ::
  "bool fetched \<Rightarrow> (message \<times> outcome \<times> unit fetched \<times> unit fetched) list fetched
     \<Rightarrow> endpoint \<Rightarrow> endpoint" where
  "cline_pollTick ping drained t =
     (if pollInterval t = None then t
      else
        (let t1 = fetch (GET (BRIDGE_SERVER_URL @ ''/ping?client=cline'')) t
         in case ping of
              NetworkError e \<Rightarrow> cline_pollFailed e t1
            | Http ok statusText (Inl e) \<Rightarrow> cline_pollFailed e t1
            | Http ok statusText (Inr hasUpdates) \<Rightarrow>
                if \<not> hasUpdates then t1
                else
                  (let t2 = fetch (GET (BRIDGE_SERVER_URL @ ''/cline/messages'')) t1
                   in case drained of
                        NetworkError e \<Rightarrow> cline_pollFailed e t2
                      | Http ok2 statusText2 (Inl e) \<Rightarrow> cline_pollFailed e t2
                      | Http ok2 statusText2 (Inr ms) \<Rightarrow>
                          if ms = [] then t2
                          else handle_all ms
                                 (context_log (''Received '' @ decimal (length ms)
                                                 @ '' messages from Claude'') t2))))"

definition cline_reconnectFires :: "string fetched \<Rightarrow> endpoint \<Rightarrow> endpoint" where
  "cline_reconnectFires probe t =
     (case reconnects t of
        [] \<Rightarrow> t
      | d # ds \<Rightarrow> cline_dropped (cline_connectToServer probe (t\<lparr>reconnects := ds\<rparr>)))"

definition cline_cleanup :: "endpoint \<Rightarrow> endpoint" where
  "cline_cleanup t =
     context_log ''Client disconnected from bridge server''
       (t\<lparr>pollInterval := None, connected := False\<rparr>)"

text \<open>The outbound calls of the tool.\<close>

definition cline_sendMessage :: "string \<Rightarrow> 'a fetched \<Rightarrow> endpoint \<Rightarrow> (string + 'a) \<times> endpoint" where
  "cline_sendMessage cont resp t =
     (if \<not> connected t then (Inl ''Not connected to bridge server'', t)
      else
        (let t1 = fetch (reply [(''content'', JString cont), (''type'', JString ''text'')]) t
         in case resp of
              NetworkError e \<Rightarrow> (Inl e, context_log (''Error sending message: '' @ e) t1)
            | Http ok statusText body \<Rightarrow>
                if \<not> ok then
                  (Inl (''Failed to send message: '' @ statusText),
                   context_log (''Error sending message: Failed to send message: '' @ statusText) t1)
                else
                  (case body of
                     Inl e \<Rightarrow> (Inl e, context_log (''Error sending message: '' @ e) t1)
                   | Inr v \<Rightarrow> (Inr v, t1))))"

text \<open>
  \<^verbatim>\<open>notifyFileChanged\<close> returns without a value; \<open>Inr ()\<close> is the promise resolved with
  \<^verbatim>\<open>undefined\<close>. It never rejects.
\<close>

definition notifyFileChanged ::
  "string \<Rightarrow> string \<Rightarrow> unit fetched \<Rightarrow> endpoint \<Rightarrow> (string + unit) \<times> endpoint" where
  "notifyFileChanged p cont resp t =
     (if \<not> connected t then (Inr (), t)
      else
        (let t1 = fetch (reply [(''type'', JString ''fileChanged''), (''path'', JString p),
                                (''content'', JString cont)]) t
         in case thrown resp of
              None \<Rightarrow> (Inr (), t1)
            | Some e \<Rightarrow> (Inr (), context_log (''Error notifying file change: '' @ e) t1)))"

definition cline_sendFile ::
  "string \<Rightarrow> string \<Rightarrow> 'a fetched \<Rightarrow> endpoint \<Rightarrow> (string + 'a) \<times> endpoint" where
  "cline_sendFile name cont resp t =
     (if \<not> connected t then (Inl ''Not connected to bridge server'', t)
      else
        (let t1 = fetch (POST (BRIDGE_SERVER_URL @ ''/cline/file'')
                           [(''name'', JString name), (''content'', JString cont)]) t
         in case resp of
              NetworkError e \<Rightarrow> (Inl e, context_log (''Error sending file: '' @ e) t1)
            | Http ok statusText body \<Rightarrow>
                if \<not> ok then
                  (Inl (''Failed to send file: '' @ statusText),
                   context_log (''Error sending file: Failed to send file: '' @ statusText) t1)
                else
                  (case body of
                     Inl e \<Rightarrow> (Inl e, context_log (''Error sending file: '' @ e) t1)
                   | Inr v \<Rightarrow> (Inr v, t1))))"

section \<open>The relay of claude-cline-bridge.js\<close>

text \<open>
  The relay keeps one queue per party. A posted message is stored with three fields only:
  the body's \<^verbatim>\<open>content\<close>, its \<^verbatim>\<open>type\<close> (\<^verbatim>\<open>'text'\<close> when the body has none) and a
  timestamp taken by the relay (\<open>now\<close>). The \<^verbatim>\<open>type\<close> of a body, when present, is taken
  to be a string.
\<close>

record stored =
  stored_content :: "json option"
  stored_type :: string
  timestamp :: string

record relay =
  claude :: "stored list"
  cline :: "stored list"

definition store :: "(string \<times> json) list \<Rightarrow> string \<Rightarrow> stored" where
  "store body now =
     \<lparr>stored_content = map_of body ''content'',
      stored_type = (case map_of body ''type'' of
                       Some (JString t) \<Rightarrow> if t = [] then ''text'' else t
                     | _ \<Rightarrow> ''text''),
      timestamp = now\<rparr>"

text \<open>\<^verbatim>\<open>POST /claude/message\<close> and \<^verbatim>\<open>POST /cline/message\<close>: each goes to the other party.\<close>

definition post_claude_message :: "(string \<times> json) list \<Rightarrow> string \<Rightarrow> relay \<Rightarrow> relay" where
  "post_claude_message body now r = r\<lparr>cline := cline r @ [store body now]\<rparr>"

definition post_cline_message :: "(string \<times> json) list \<Rightarrow> string \<Rightarrow> relay \<Rightarrow> relay" where
  "post_cline_message body now r = r\<lparr>claude := claude r @ [store body now]\<rparr>"

text \<open>\<^verbatim>\<open>GET /claude/messages\<close>: the whole queue is returned and the queue is emptied.\<close>

definition get_claude_messages :: "relay \<Rightarrow> stored list \<times> relay" where
  "get_claude_messages r = (claude r, r\<lparr>claude := []\<rparr>)"

definition get_cline_messages :: "relay \<Rightarrow> stored list \<times> relay" where
  "get_cline_messages r = (cline r, r\<lparr>cline := []\<rparr>)"

text \<open>\<^verbatim>\<open>GET /ping?client=claude\<close>: the field \<^verbatim>\<open>hasUpdates\<close> of the answer.\<close>

definition ping_claude :: "relay \<Rightarrow> bool" where
  "ping_claude r \<longleftrightarrow> length (claude r) > 0"

text \<open>
  A stored message as the client reads it from the drained array: the fields the relay
  did not keep are absent. (The record \<open>message\<close> holds text fields only.)
\<close>

definition received :: "stored \<Rightarrow> message" where
  "received s =
     (envelope (stored_type s))
       \<lparr>content := (case stored_content s of Some (JString t) \<Rightarrow> Some t | _ \<Rightarrow> None)\<rparr>"

section \<open>The framing codec of minimal-mcp-server.js\<close>

text \<open>
  A JavaScript string is a sequence of UTF-16 code units, and \<^verbatim>\<open>length\<close>,
  \<^verbatim>\<open>substring\<close> and the regular expression count code units. A code unit is a natural
  number below 65536.
\<close>

type_synonym jsstring = "nat list"

definition units :: "string \<Rightarrow> jsstring" where
  "units s = map of_char s"

text \<open>
  \<^verbatim>\<open>Buffer.byteLength(s, 'utf8')\<close>: one byte for a code unit below 0x80, two below 0x800,
  four for a surrogate pair, three otherwise (a lone surrogate is written as U+FFFD).
\<close>

definition high_surrogate :: "nat \<Rightarrow> bool" where
  "high_surrogate c \<longleftrightarrow> 0xD800 \<le> c \<and> c \<le> 0xDBFF"

definition low_surrogate :: "nat \<Rightarrow> bool" where
  "low_surrogate c \<longleftrightarrow> 0xDC00 \<le> c \<and> c \<le> 0xDFFF"

definition unit_bytes :: "nat \<Rightarrow> nat" where
  "unit_bytes c = (if c < 0x80 then 1 else if c < 0x800 then 2 else 3)"

fun byteLength :: "jsstring \<Rightarrow> nat" where
  "byteLength [] = 0"
| "byteLength [c] = unit_bytes c"
| "byteLength (c # d # cs) =
     (if high_surrogate c \<and> low_surrogate d then 4 + byteLength cs
      else unit_bytes c + byteLength (d # cs))"

definition CRLF :: jsstring where
  "CRLF = [13, 10]"

text \<open>
  What \<^verbatim>\<open>sendMessage\<close> writes to the stream for the serialised message \<open>cont\<close>
  (\<^verbatim>\<open>JSON.stringify(message)\<close>).
\<close>

definition frame :: "jsstring \<Rightarrow> jsstring" where
  "frame cont =
     units ''Content-Length: '' @ units (decimal (byteLength cont)) @ CRLF @ CRLF @ cont"

text \<open>
  \<^verbatim>\<open>buffer.match(/Content-Length: (\d+)\r\n\r\n/)\<close>. \<open>match_here\<close> matches the
  expression at the start of the text and gives the digits of the group and the length of
  the whole match; \<open>search\<close> gives the leftmost match of the text, as \<^verbatim>\<open>match\<close> does.
\<close>

definition is_digit :: "nat \<Rightarrow> bool" where
  "is_digit c \<longleftrightarrow> 48 \<le> c \<and> c \<le> 57"

definition match_here :: "jsstring \<Rightarrow> (jsstring \<times> nat) option" where
  "match_here s =
     (if take 16 s = units ''Content-Length: '' then
        (let ds = takeWhile is_digit (drop 16 s);
             rest = dropWhile is_digit (drop 16 s)
         in if ds \<noteq> [] \<and> take 4 rest = CRLF @ CRLF then Some (ds, 16 + length ds + 4)
            else None)
      else None)"

fun search :: "jsstring \<Rightarrow> (jsstring \<times> nat) option" where
  "search [] = match_here []"
| "search (c # cs) =
     (case match_here (c # cs) of Some r \<Rightarrow> Some r | None \<Rightarrow> search cs)"

text \<open>\<^verbatim>\<open>parseInt(digits, 10)\<close> on a text of decimal digits (exact below \<open>2^53\<close>).\<close>

definition parseInt :: "jsstring \<Rightarrow> nat" where
  "parseInt ds = foldl (\<lambda>n c. 10 * n + (c - 48)) 0 ds"

text \<open>
  The state kept between \<^verbatim>\<open>data\<close> events, and the loop of the event handler. One pass
  of the loop body: with no length known, the header is looked for and, when found, the
  length is read and \<^verbatim>\<open>match[0].length\<close> code units are cut off the front of the buffer;
  then, when the buffer holds at least \<^verbatim>\<open>contentLength\<close> code units, that many are taken
  as the message. \<open>drain\<close> gives the messages taken and the state the loop leaves.
\<close>

definition next_length :: "jsstring \<Rightarrow> nat option \<Rightarrow> (jsstring \<times> nat) option" where
  "next_length buf cl =
     (case cl of
        Some n \<Rightarrow> Some (buf, n)
      | None \<Rightarrow>
          (case search buf of
             None \<Rightarrow> None
           | Some (ds, len) \<Rightarrow> Some (drop len buf, parseInt ds)))"

lemma match_here_pos: "match_here s = Some (ds, len) \<Longrightarrow> 0 < len"
  by (auto simp: match_here_def Let_def split: if_splits)

lemma search_pos: "search s = Some (ds, len) \<Longrightarrow> 0 < len"
  by (induction s) (auto split: option.splits dest: match_here_pos)

lemma next_length_measure:
  "buf \<noteq> [] \<Longrightarrow> next_length buf cl = Some (b, n) \<Longrightarrow> n \<le> length b \<Longrightarrow>
   2 * length (drop n b) < 2 * length buf + (if cl = None then 0 else 1)"
  by (auto simp: next_length_def split: option.splits dest: search_pos)

function drain :: "jsstring \<Rightarrow> nat option \<Rightarrow> jsstring list \<times> jsstring \<times> nat option" where
  "drain buf cl =
     (if buf = [] then ([], buf, cl)
      else
        (case next_length buf cl of
           None \<Rightarrow> ([], buf, None)
         | Some (b, n) \<Rightarrow>
             if length b < n then ([], b, Some n)
             else (let r = drain (drop n b) None in (take n b # fst r, snd r))))"
  by pat_completeness auto
termination
proof (relation "measure (\<lambda>(buf, cl). 2 * length buf + (if cl = None then 0 else 1))")
  show "wf (measure (\<lambda>(buf, cl). 2 * length buf + (if cl = None then 0 else 1)))"
    by simp
next
  fix buf :: jsstring and cl :: "nat option" and x2 :: "jsstring \<times> nat" and b n
  assume "buf \<noteq> []" "next_length buf cl = Some x2" "(b, n) = x2" "\<not> length b < n"
  then show "((drop n b, None), buf, cl)
      \<in> measure (\<lambda>(buf, cl). 2 * length buf + (if cl = None then 0 else 1))"
    using next_length_measure [of buf cl b n] by simp
qed

declare drain.simps [simp del]

text \<open>
  The handler of a \<^verbatim>\<open>data\<close> event: \<^verbatim>\<open>buffer += chunk.toString()\<close>, then the loop.
  \<open>chunk\<close> is the text that \<^verbatim>\<open>toString()\<close> gives for the bytes of the event.
\<close>

definition on_data :: "jsstring \<Rightarrow> jsstring \<times> nat option \<Rightarrow> jsstring list \<times> jsstring \<times> nat option" where
  "on_data chunk st = drain (fst st @ chunk) (snd st)"

fun feed :: "jsstring list \<Rightarrow> jsstring \<times> nat option \<Rightarrow> jsstring list \<times> jsstring \<times> nat option" where
  "feed [] st = ([], st)"
| "feed (chunk # chunks) st =
     (let r = on_data chunk st; r' = feed chunks (snd r) in (fst r @ fst r', snd r'))"

section \<open>Invariants of the correlation layer\<close>

text \<open>
  Every call number stored in a handler map, an interval or a timer belongs to a promise
  that exists. This holds in every state a client can reach.
\<close>

definition well_formed :: "client \<Rightarrow> bool" where
  "well_formed c \<longleftrightarrow>
     (\<forall>p k. fileContentHandlers c p = Some k \<longrightarrow> k < length (promises c)) \<and>
     (\<forall>p k. commandResultHandlers c p = Some k \<longrightarrow> k < length (promises c)) \<and>
     (\<forall>x \<in> set (checkIntervals c). fst x < length (promises c)) \<and>
     (\<forall>x \<in> set (timeouts c). fst x < length (promises c))"

lemma well_formed_new: "well_formed (new_client url)"
  by (simp add: well_formed_def new_client_def)

lemma well_formed_log: "well_formed (log l c) = well_formed c" 
  by (simp add: well_formed_def log_def)

lemma well_formed_send: "well_formed (send r c) = well_formed c"
  by (simp add: well_formed_def send_def)

lemma well_formed_notify:  "well_formed (notify x y c) = well_formed c"
  by (simp add: well_formed_def notify_def)

lemma well_formed_settle: "well_formed (settle k v c) = well_formed c"
  by (simp add: well_formed_def settle_def)

lemma well_formed_clearTimeout: "well_formed c \<Longrightarrow> well_formed (clearTimeout k c)"
  by (simp add: well_formed_def clearTimeout_def)

lemma well_formed_clearInterval: "well_formed c \<Longrightarrow> well_formed (clearInterval k c)"
  by (simp add: well_formed_def clearInterval_def)

lemmas well_formed_prims = well_formed_log well_formed_send well_formed_notify well_formed_settle well_formed_clearTimeout well_formed_clearInterval

lemma well_formed_handlers:
  "well_formed c \<Longrightarrow> well_formed (fileHandler k x y c)" "well_formed c \<Longrightarrow> well_formed (cmdHandler k x y z c)"
  by (simp_all add: fileHandler_def cmdHandler_def well_formed_prims)

lemma well_formed_delete_file:
  "well_formed c \<Longrightarrow> well_formed (c\<lparr>fileContentHandlers := delete key (fileContentHandlers c)\<rparr>)"
  by (cases key) (simp_all add: well_formed_def delete_def)

lemma well_formed_delete_cmd:
  "well_formed c \<Longrightarrow> well_formed (c\<lparr>commandResultHandlers := delete key (commandResultHandlers c)\<rparr>)"
  by (cases key) (simp_all add: well_formed_def delete_def)

lemma well_formed_fold_notify: "well_formed (fold (\<lambda>(a, b). notify a b) ms c) = well_formed c"
  by (induction ms arbitrary: c) (simp_all add: well_formed_prims split: prod.splits)

lemma well_formed_handleMessage: "well_formed c \<Longrightarrow> handleMessage m c = Inr c' \<Longrightarrow> well_formed c'"
  unfolding handleMessage_def Let_def
  by (auto simp: well_formed_prims well_formed_handlers well_formed_delete_file well_formed_delete_cmd well_formed_fold_notify
      split: if_splits option.splits)

lemma well_formed_dispatch: "well_formed c \<Longrightarrow> well_formed (snd (dispatch ms c))"
  by (induction ms arbitrary: c) (auto split: sum.splits dest: well_formed_handleMessage)

lemma well_formed_dispatch': "well_formed c \<Longrightarrow> dispatch ms c = (x, c') \<Longrightarrow> well_formed c'"
  using well_formed_dispatch [of c ms] by simp

lemma well_formed_pollFailed: "well_formed c \<Longrightarrow> well_formed (pollFailed e c)"
  by (simp add: pollFailed_def Let_def log_def well_formed_def)

lemma well_formed_pollTick: "well_formed c \<Longrightarrow> well_formed (pollTick ping drained c)"
  unfolding pollTick_def Let_def
  by (simp add: well_formed_prims well_formed_pollFailed well_formed_dispatch split: fetched.splits sum.splits option.splits)

lemma well_formed_checkTick: "well_formed c \<Longrightarrow> well_formed (checkTick k ping drained c)"
  unfolding checkTick_def Let_def checkFailed_def
  by (auto simp: well_formed_prims split: fetched.splits sum.splits option.splits)

lemma well_formed_timeoutFires: "well_formed c \<Longrightarrow> well_formed (timeoutFires k c)"
  unfolding timeoutFires_def Let_def
  by (simp add: well_formed_def settle_def clearTimeout_def split: option.splits timer.splits prod.splits)

lemma well_formed_connect: "well_formed c \<Longrightarrow> well_formed (dropped (connectToServer probe c))"
  unfolding connectToServer_def Let_def dropped_def startPolling_def log_def send_def
  by (simp add: well_formed_def split: fetched.splits sum.splits)

lemma well_formed_reconnectFires: "well_formed c \<Longrightarrow> well_formed (reconnectFires probe c)"
proof (cases "reconnects c")
  case Nil
  then show "well_formed c \<Longrightarrow> well_formed (reconnectFires probe c)" by (simp add: reconnectFires_def)
next
  case (Cons d ds)
  assume "well_formed c"
  then have "well_formed (c\<lparr>reconnects := ds\<rparr>)" by (simp add: well_formed_def)
  then show "well_formed (reconnectFires probe c)"
    using Cons by (simp add: reconnectFires_def well_formed_connect)
qed

lemma well_formed_calls:
  "well_formed c \<Longrightarrow> well_formed (snd (getFile p now r c))"
  "well_formed c \<Longrightarrow> well_formed (snd (updateFile p cont now r c))"
  "well_formed c \<Longrightarrow> well_formed (snd (executeCommand cmd now r c))"
  "well_formed c \<Longrightarrow> well_formed (snd (sendMessage cont r' c))"
  "well_formed c \<Longrightarrow> well_formed (snd (sendFile name cont r' c))"
  unfolding getFile_def updateFile_def executeCommand_def sendMessage_def sendFile_def Let_def
    log_def send_def
  by (simp_all add: well_formed_def less_Suc_eq split: fetched.splits sum.splits)


lemma well_formed_observers:
  "well_formed (onMessage h c) = well_formed c" "well_formed (removeHandler h c) = well_formed c" "well_formed (cleanup c) = well_formed c"
  by (simp_all add: onMessage_def removeHandler_def cleanup_def log_def well_formed_def)

lemma well_formed_step: "well_formed c \<Longrightarrow> well_formed (step e c)"
  by (cases e)
    (simp_all add: well_formed_calls well_formed_pollTick well_formed_checkTick well_formed_timeoutFires well_formed_reconnectFires
      well_formed_observers well_formed_connect)

lemma well_formed_run: "well_formed c \<Longrightarrow> well_formed (run es c)"
  unfolding run_def by (induction es arbitrary: c) (simp_all add: well_formed_step)

text \<open>
  A call \<open>a\<close> is stranded when its promise is pending, its timer \<open>t\<close> is armed, and no
  handler map and no interval holds \<open>a\<close>: nothing but the timer can settle its promise.
\<close>

definition stranded :: "nat \<Rightarrow> timer \<times> nat \<Rightarrow> client \<Rightarrow> bool" where
  "stranded a t c \<longleftrightarrow>
     a < length (promises c) \<and> promises c ! a = Pending \<and>
     (\<forall>p. fileContentHandlers c p \<noteq> Some a) \<and>
     (\<forall>p. commandResultHandlers c p \<noteq> Some a) \<and>
     (\<forall>x \<in> set (checkIntervals c). fst x \<noteq> a) \<and>
     map_of (timeouts c) a = Some t"

lemma map_of_filter_other:
  "k \<noteq> a \<Longrightarrow> map_of (filter (\<lambda>t. fst t \<noteq> k) xs) a = map_of xs a"
  by (induction xs) auto

lemma stranded_log: "stranded a t (log l c) = stranded a t c"
  by (simp add: stranded_def log_def)

lemma stranded_send: "stranded a t (send r c) = stranded a t c"
  by (simp add: stranded_def send_def)

lemma stranded_notify: "stranded a t (notify x y c) = stranded a t c"
  by (simp add: stranded_def notify_def)

lemma stranded_settle: "k \<noteq> a \<Longrightarrow> stranded a t (settle k v c) = stranded a t c"
  by (simp add: stranded_def settle_def)

lemma stranded_clearTimeout: "k \<noteq> a \<Longrightarrow> stranded a t (clearTimeout k c) = stranded a t c"
  by (simp add: stranded_def clearTimeout_def map_of_filter_other)

lemma stranded_clearInterval: "stranded a t c \<Longrightarrow> stranded a t (clearInterval k c)"
  by (simp add: stranded_def clearInterval_def)

lemmas stranded_prims = stranded_log stranded_send stranded_notify stranded_settle
  stranded_clearTimeout stranded_clearInterval

lemma stranded_fileHandler: "k \<noteq> a \<Longrightarrow> stranded a t (fileHandler k x y c) = stranded a t c"
  by (simp add: fileHandler_def stranded_prims)

lemma stranded_cmdHandler: "k \<noteq> a \<Longrightarrow> stranded a t (cmdHandler k x y z c) = stranded a t c"
  by (simp add: cmdHandler_def stranded_prims)

lemma stranded_delete_file:
  "stranded a t c \<Longrightarrow> stranded a t (c\<lparr>fileContentHandlers := delete key (fileContentHandlers c)\<rparr>)"
  by (cases key) (simp_all add: stranded_def delete_def)

lemma stranded_delete_cmd:
  "stranded a t c \<Longrightarrow> stranded a t (c\<lparr>commandResultHandlers := delete key (commandResultHandlers c)\<rparr>)"
  by (cases key) (simp_all add: stranded_def delete_def)

lemma stranded_fold_notify: "stranded a t (fold (\<lambda>(x, y). notify x y) ms c) = stranded a t c"
  by (induction ms arbitrary: c) (simp_all add: stranded_prims split: prod.splits)

lemma stranded_lookup_file: "stranded a t c \<Longrightarrow> lookup (fileContentHandlers c) key = Some k \<Longrightarrow> k \<noteq> a"
  by (cases key) (auto simp: stranded_def lookup_def)

lemma stranded_lookup_cmd: "stranded a t c \<Longrightarrow> lookup (commandResultHandlers c) key = Some k \<Longrightarrow> k \<noteq> a"
  by (cases key) (auto simp: stranded_def lookup_def)

lemma stranded_found_file:
  "stranded a t c \<Longrightarrow> lookup (fileContentHandlers c) key = Some k \<Longrightarrow>
   stranded a t (fileHandler k x y c)"
  using stranded_lookup_file [of a t c key k] by (simp add: stranded_fileHandler)

lemma stranded_found_cmd:
  "stranded a t c \<Longrightarrow> lookup (commandResultHandlers c) key = Some k \<Longrightarrow>
   stranded a t (cmdHandler k x y z c)"
  using stranded_lookup_cmd [of a t c key k] by (simp add: stranded_cmdHandler)

lemma stranded_handleMessage:
  assumes "stranded a t c" "handleMessage m c = Inr c'"
  shows "stranded a t c'"
  using assms unfolding handleMessage_def Let_def
  by (auto simp: stranded_prims stranded_fold_notify
      intro!: stranded_delete_file stranded_delete_cmd stranded_found_file stranded_found_cmd
      split: if_splits option.splits)

lemma stranded_dispatch: "stranded a t c \<Longrightarrow> stranded a t (snd (dispatch ms c))"
  by (induction ms arbitrary: c) (auto split: sum.splits dest: stranded_handleMessage)

lemma stranded_pollFailed: "stranded a t (pollFailed e c) = stranded a t c"
  by (simp add: pollFailed_def Let_def log_def stranded_def)

lemma stranded_pollTick: "stranded a t c \<Longrightarrow> stranded a t (pollTick ping drained c)"
  unfolding pollTick_def Let_def
  by (simp add: stranded_prims stranded_pollFailed stranded_dispatch
      split: fetched.splits sum.splits option.splits)

lemma stranded_interval: "stranded a t c \<Longrightarrow> map_of (checkIntervals c) k = Some p \<Longrightarrow> k \<noteq> a"
  using map_of_SomeD [of "checkIntervals c" k p] by (fastforce simp: stranded_def)

lemma stranded_checkTick: "stranded a t c \<Longrightarrow> stranded a t (checkTick k ping drained c)"
proof (cases "map_of (checkIntervals c) k")
  case None
  then show "stranded a t c \<Longrightarrow> ?thesis" by (simp add: checkTick_def)
next
  case (Some p)
  assume s: "stranded a t c"
  then have "k \<noteq> a" using Some by (rule stranded_interval)
  then show ?thesis using s Some
    unfolding checkTick_def Let_def checkFailed_def
    by (simp add: stranded_prims split: fetched.splits sum.splits option.splits prod.splits)
qed

lemma stranded_timeoutFires: "stranded a t c \<Longrightarrow> k \<noteq> a \<Longrightarrow> stranded a t (timeoutFires k c)"
  unfolding timeoutFires_def Let_def
  by (simp add: stranded_def settle_def clearTimeout_def map_of_filter_other
      split: option.splits timer.splits prod.splits)

lemma stranded_connect: "stranded a t c \<Longrightarrow> stranded a t (dropped (connectToServer probe c))"
  unfolding connectToServer_def Let_def dropped_def startPolling_def log_def send_def
  by (simp add: stranded_def split: fetched.splits sum.splits)

lemma stranded_reconnectFires: "stranded a t c \<Longrightarrow> stranded a t (reconnectFires probe c)"
proof (cases "reconnects c")
  case Nil
  then show "stranded a t c \<Longrightarrow> ?thesis" by (simp add: reconnectFires_def)
next
  case (Cons d ds)
  assume "stranded a t c"
  then have "stranded a t (c\<lparr>reconnects := ds\<rparr>)" by (simp add: stranded_def)
  then show ?thesis
    using Cons by (simp add: reconnectFires_def stranded_connect)
qed

lemma stranded_calls:
  "stranded a t c \<Longrightarrow> stranded a t (snd (getFile p now r c))"
  "stranded a t c \<Longrightarrow> stranded a t (snd (updateFile p cont now r c))"
  "stranded a t c \<Longrightarrow> stranded a t (snd (executeCommand cmd now r c))"
  "stranded a t c \<Longrightarrow> stranded a t (snd (sendMessage cont r' c))"
  "stranded a t c \<Longrightarrow> stranded a t (snd (sendFile name cont r' c))"
  unfolding getFile_def updateFile_def executeCommand_def sendMessage_def sendFile_def Let_def
    log_def send_def
  by (auto simp: stranded_def nth_append split: fetched.splits sum.splits)

lemma stranded_observers:
  "stranded a t (onMessage h c) = stranded a t c"
  "stranded a t (removeHandler h c) = stranded a t c"
  "stranded a t (cleanup c) = stranded a t c"
  by (simp_all add: onMessage_def removeHandler_def cleanup_def log_def stranded_def)

lemma stranded_step: "stranded a t c \<Longrightarrow> e \<noteq> TimeoutFires a \<Longrightarrow> stranded a t (step e c)"
  by (cases e)
    (simp_all add: stranded_calls stranded_pollTick stranded_checkTick stranded_timeoutFires
      stranded_reconnectFires stranded_observers stranded_connect)

lemma stranded_run: "stranded a t c \<Longrightarrow> TimeoutFires a \<notin> set es \<Longrightarrow> stranded a t (run es c)"
  unfolding run_def by (induction es arbitrary: c) (auto simp: stranded_step)

lemma map_of_fresh: "\<forall>x \<in> set xs. fst x < a \<Longrightarrow> map_of xs (a::nat) = None"
  by (induction xs) auto

lemma getFile_twice_stranded:
  assumes "well_formed c" "connected c"
  shows "stranded (length (promises c)) (FileTimeout p, 30000)
           (snd (getFile p n2 (Http True s2 b2) (snd (getFile p n1 (Http True s1 b1) c))))"
  using assms map_of_fresh [of "timeouts c" "length (promises c)"]
  unfolding getFile_def Let_def send_def
  by (auto simp: stranded_def well_formed_def nth_append map_add_def)

lemma executeCommand_twice_stranded:
  assumes "well_formed c" "connected c"
  shows "stranded (length (promises c)) (CommandTimeout cmd, 60000)
           (snd (executeCommand cmd n2 (Http True s2 b2) (snd (executeCommand cmd n1 (Http True s1 b1) c))))"
  using assms map_of_fresh [of "timeouts c" "length (promises c)"]
  unfolding executeCommand_def Let_def send_def
  by (auto simp: stranded_def well_formed_def nth_append map_add_def)

lemma stranded_pending: "stranded a t c \<Longrightarrow> promises c ! a = Pending"
  by (simp add: stranded_def)

lemma stranded_file_timeout:
  "stranded a (FileTimeout p, d) c \<Longrightarrow>
   promises (timeoutFires a c) ! a = Rejected ''Timeout waiting for file content''"
  by (simp add: stranded_def timeoutFires_def Let_def settle_def clearTimeout_def)

lemma stranded_cmd_timeout:
  "stranded a (CommandTimeout p, d) c \<Longrightarrow>
   promises (timeoutFires a c) ! a = Rejected ''Timeout waiting for command result''"
  by (simp add: stranded_def timeoutFires_def Let_def settle_def clearTimeout_def)

lemma well_formed_reachable: "well_formed (run es (new_client url))"
  by (simp add: well_formed_run well_formed_new)

text \<open>
  C5. A handler map holds one call per key. When \<^verbatim>\<open>getFile\<close> is called twice with the
  same path (or \<^verbatim>\<open>executeCommand\<close> twice with the same command) on a connected client,
  the second call takes the place of the first under the key; whatever happens afterwards,
  as long as the timer of the first call does not fire, the promise of the first call stays
  pending, and when that timer fires the promise is rejected with the timeout error.
\<close>

theorem duplicate_key_replaces_handler:
  assumes "c = run es0 (new_client url)" and "connected c"
    and "TimeoutFires (length (promises c)) \<notin> set es"
  shows
    "(let a = length (promises c);
          c1 = snd (getFile p n1 (Http True s1 b1) c);
          c2 = snd (getFile p n2 (Http True s2 b2) c1)
      in fst (getFile p n1 (Http True s1 b1) c) = Inr a \<and>
         fileContentHandlers c1 p = Some a \<and>
         fst (getFile p n2 (Http True s2 b2) c1) = Inr (Suc a) \<and>
         fileContentHandlers c2 p = Some (Suc a) \<and>
         promises (run es c2) ! a = Pending \<and>
         promises (timeoutFires a (run es c2)) ! a = Rejected ''Timeout waiting for file content'') \<and>
     (let a = length (promises c);
          c1 = snd (executeCommand cmd n1 (Http True s1 b1) c);
          c2 = snd (executeCommand cmd n2 (Http True s2 b2) c1)
      in fst (executeCommand cmd n1 (Http True s1 b1) c) = Inr a \<and>
         commandResultHandlers c1 cmd = Some a \<and>
         fst (executeCommand cmd n2 (Http True s2 b2) c1) = Inr (Suc a) \<and>
         commandResultHandlers c2 cmd = Some (Suc a) \<and>
         promises (run es c2) ! a = Pending \<and>
         promises (timeoutFires a (run es c2)) ! a = Rejected ''Timeout waiting for command result'')"
proof -
  have wfc: "well_formed c" using assms(1) by (simp add: well_formed_reachable)
  let ?a = "length (promises c)"
  let ?f = "snd (getFile p n2 (Http True s2 b2) (snd (getFile p n1 (Http True s1 b1) c)))"
  let ?x = "snd (executeCommand cmd n2 (Http True s2 b2) (snd (executeCommand cmd n1 (Http True s1 b1) c)))"
  have "stranded ?a (FileTimeout p, 30000) (run es ?f)"
    using getFile_twice_stranded [OF wfc assms(2)] assms(3) by (rule stranded_run)
  then have f: "promises (run es ?f) ! ?a = Pending"
    "promises (timeoutFires ?a (run es ?f)) ! ?a = Rejected ''Timeout waiting for file content''"
    by (simp_all add: stranded_pending stranded_file_timeout)
  have "stranded ?a (CommandTimeout cmd, 60000) (run es ?x)"
    using executeCommand_twice_stranded [OF wfc assms(2)] assms(3) by (rule stranded_run)
  then have x: "promises (run es ?x) ! ?a = Pending"
    "promises (timeoutFires ?a (run es ?x)) ! ?a = Rejected ''Timeout waiting for command result''"
    by (simp_all add: stranded_pending stranded_cmd_timeout)
  have g: "fst (getFile p n1 (Http True s1 b1) c) = Inr ?a"
    "fileContentHandlers (snd (getFile p n1 (Http True s1 b1) c)) p = Some ?a"
    "fst (getFile p n2 (Http True s2 b2) (snd (getFile p n1 (Http True s1 b1) c))) = Inr (Suc ?a)"
    "fileContentHandlers ?f p = Some (Suc ?a)"
    using assms(2) by (simp_all add: getFile_def Let_def send_def)
  have e: "fst (executeCommand cmd n1 (Http True s1 b1) c) = Inr ?a"
    "commandResultHandlers (snd (executeCommand cmd n1 (Http True s1 b1) c)) cmd = Some ?a"
    "fst (executeCommand cmd n2 (Http True s2 b2) (snd (executeCommand cmd n1 (Http True s1 b1) c))) = Inr (Suc ?a)"
    "commandResultHandlers ?x cmd = Some (Suc ?a)"
    using assms(2) by (simp_all add: executeCommand_def Let_def send_def)
  show ?thesis
    unfolding Let_def using f x g e by simp
qed

lemmas client_defs = run_def new_client_def connectToServer_def dropped_def startPolling_def
  pollIntervalTime_def
  getFile_def updateFile_def executeCommand_def sendMessage_def sendFile_def invoke_def
  onMessage_def removeHandler_def timeoutFires_def pollTick_def checkTick_def pollFailed_def
  checkFailed_def reconnectFires_def cleanup_def handleMessage_def fileHandler_def
  cmdHandler_def notify_def lookup_def delete_def settle_def clearTimeout_def
  clearInterval_def log_def send_def envelope_def str_def truthy_def matching_def or_true_def
  Let_def

theorem duplicate_key_replaces_handler_witness:
  "connected (run [ProbeReturns (Http True ''OK'' (Inr ''1.00''))] (new_client ''http://localhost:2612'')) \<and>
   promises
     (run [PollTick (Http True ''OK'' (Inr True))
             (Http True ''OK'' (Inr [(envelope ''fileContent'')\<lparr>path := Some ''a.txt'', content := Some ''hello''\<rparr>]))]
        (run [ProbeReturns (Http True ''OK'' (Inr ''1.00'')),
              GetFile ''a.txt'' 1 (Http True ''OK'' (Inr ())),
              GetFile ''a.txt'' 2 (Http True ''OK'' (Inr ()))]
           (new_client ''http://localhost:2612''))) ! 0 = Pending"
  using duplicate_key_replaces_handler
    [of "run [ProbeReturns (Http True ''OK'' (Inr ''1.00''))] (new_client ''http://localhost:2612'')"
        "[ProbeReturns (Http True ''OK'' (Inr ''1.00''))]" "''http://localhost:2612''"
        "[PollTick (Http True ''OK'' (Inr True))
             (Http True ''OK'' (Inr [(envelope ''fileContent'')\<lparr>path := Some ''a.txt'', content := Some ''hello''\<rparr>]))]"
        "''a.txt''" 1 "''OK''" "Inr ()" 2 "''OK''" "Inr ()"]
  by (simp add: client_defs decimal.simps digit_def)


section \<open>Replies that find no pending entry\<close>

lemma timeoutFires_file_entry:
  "map_of (timeouts c) k = Some (FileTimeout p, d) \<Longrightarrow> fileContentHandlers (timeoutFires k c) p = None"
  by (simp add: timeoutFires_def settle_def clearTimeout_def Let_def)

lemma timeoutFires_cmd_entry:
  "map_of (timeouts c) k = Some (CommandTimeout cmd, d) \<Longrightarrow>
   commandResultHandlers (timeoutFires k c) cmd = None"
  by (simp add: timeoutFires_def settle_def clearTimeout_def Let_def)

lemma handleMessage_no_file_entry:
  "mtype m = ''fileContent'' \<Longrightarrow> lookup (fileContentHandlers c) (path m) = None \<Longrightarrow>
   handleMessage m c = Inr c"
  by (simp add: handleMessage_def)

lemma handleMessage_no_cmd_entry:
  "mtype m = ''commandResult'' \<Longrightarrow> lookup (commandResultHandlers c) (command m) = None \<Longrightarrow>
   handleMessage m c = Inr c"
  by (simp add: handleMessage_def)

text \<open>
  C6. A \<^verbatim>\<open>fileContent\<close> or \<^verbatim>\<open>commandResult\<close> envelope whose key has no entry in
  the handler map leaves the client exactly as it was: \<^verbatim>\<open>handleMessage\<close> returns
  without throwing, nothing is logged or sent, and no promise, timer or entry of another
  call changes. This is the case in particular once the timer of the call has fired, since
  the timer's callback deletes the entry of its key.
\<close>

theorem reply_without_entry_dropped:
  "(mtype m = ''fileContent'' \<and> lookup (fileContentHandlers c) (path m) = None
      \<longrightarrow> handleMessage m c = Inr c \<and> dispatch [m] c = (None, c)) \<and>
   (mtype m = ''commandResult'' \<and> lookup (commandResultHandlers c) (command m) = None
      \<longrightarrow> handleMessage m c = Inr c \<and> dispatch [m] c = (None, c)) \<and>
   (mtype m = ''fileContent'' \<and> path m = Some p \<and>
    map_of (timeouts c) k = Some (FileTimeout p, d)
      \<longrightarrow> handleMessage m (timeoutFires k c) = Inr (timeoutFires k c)) \<and>
   (mtype m = ''commandResult'' \<and> command m = Some cmd \<and>
    map_of (timeouts c) k = Some (CommandTimeout cmd, d)
      \<longrightarrow> handleMessage m (timeoutFires k c) = Inr (timeoutFires k c))"
proof (intro conjI impI)
  assume a: "mtype m = ''fileContent'' \<and> lookup (fileContentHandlers c) (path m) = None"
  then show h: "handleMessage m c = Inr c" by (simp add: handleMessage_no_file_entry)
  then show "dispatch [m] c = (None, c)" by simp
next
  assume a: "mtype m = ''commandResult'' \<and> lookup (commandResultHandlers c) (command m) = None"
  then show h: "handleMessage m c = Inr c" by (simp add: handleMessage_no_cmd_entry)
  then show "dispatch [m] c = (None, c)" by simp
next
  assume a: "mtype m = ''fileContent'' \<and> path m = Some p \<and>
    map_of (timeouts c) k = Some (FileTimeout p, d)"
  then have "lookup (fileContentHandlers (timeoutFires k c)) (path m) = None"
    by (simp add: lookup_def timeoutFires_file_entry)
  then show "handleMessage m (timeoutFires k c) = Inr (timeoutFires k c)"
    using a by (simp add: handleMessage_no_file_entry)
next
  assume a: "mtype m = ''commandResult'' \<and> command m = Some cmd \<and>
    map_of (timeouts c) k = Some (CommandTimeout cmd, d)"
  then have "lookup (commandResultHandlers (timeoutFires k c)) (command m) = None"
    by (simp add: lookup_def timeoutFires_cmd_entry)
  then show "handleMessage m (timeoutFires k c) = Inr (timeoutFires k c)"
    using a by (simp add: handleMessage_no_cmd_entry)
qed

text \<open>A connected client with a \<^verbatim>\<open>getFile\<close> and an \<^verbatim>\<open>executeCommand\<close> call in flight.\<close>

definition demo :: client where
  "demo = run [ProbeReturns (Http True ''OK'' (Inr ''1.00'')),
               GetFile ''a.txt'' 1 (Http True ''OK'' (Inr ())),
               ExecuteCommand ''ls'' 2 (Http True ''OK'' (Inr ()))]
            (new_client ''http://localhost:2612'')"

lemma demo_eval:
  "timeouts demo = [(0, FileTimeout ''a.txt'', 30000), (1, CommandTimeout ''ls'', 60000)]"
  "promises demo = [Pending, Pending]"
  by (simp_all add: demo_def client_defs)

theorem reply_without_entry_dropped_witness:
  "map_of (timeouts demo) 0 = Some (FileTimeout ''a.txt'', 30000) \<and>
   promises (timeoutFires 0 demo) = [Rejected ''Timeout waiting for file content'', Pending] \<and>
   handleMessage ((envelope ''fileContent'')\<lparr>path := Some ''a.txt'', content := Some ''late''\<rparr>)
     (timeoutFires 0 demo) = Inr (timeoutFires 0 demo)"
  using reply_without_entry_dropped
    [of "(envelope ''fileContent'')\<lparr>path := Some ''a.txt'', content := Some ''late''\<rparr>"
        demo "''a.txt''" 0 30000 "''ls''"]
  by (simp add: demo_eval envelope_def timeoutFires_def clearTimeout_def settle_def Let_def)

section \<open>The private drain of updateFile\<close>

lemma settle_other: "j \<noteq> k \<Longrightarrow> promises (settle k v c) ! j = promises c ! j"
  by (simp add: settle_def)

lemma settle_frame:
  "fileContentHandlers (settle k v c) = fileContentHandlers c"
  "commandResultHandlers (settle k v c) = commandResultHandlers c"
  "invoked (settle k v c) = invoked c"
  "messageHandlers (settle k v c) = messageHandlers c"
  "sent (settle k v c) = sent c"
  "console (settle k v c) = console c"
  "length (promises (settle k v c)) = length (promises c)"
  by (simp_all add: settle_def)

text \<open>
  C10. A run of the check interval of a pending \<^verbatim>\<open>updateFile\<close> call \<open>k\<close> sends its own
  ping and, when the ping reports updates, its own drain request; the relay answers a drain
  request with the whole queue and empties it. Whatever batch \<open>ms\<close> comes back, the tick
  calls no handler and no observer: both handler maps, the observer calls and every promise
  other than \<open>k\<close> are as before, and when the batch holds no \<^verbatim>\<open>updateCodeResult\<close> for the
  call's path the client is unchanged but for the two requests it sent.
\<close>

theorem check_loop_discards:
  assumes "map_of (checkIntervals c) k = Some (p, period)"
  shows
    "(let c' = checkTick k (Http ok st (Inr True)) (Http ok' st' (Inr ms)) c
      in sent c' = sent c @ [GET (serverUrl c @ ''/ping?client=claude''),
                             GET (serverUrl c @ ''/claude/messages'')] \<and>
         fileContentHandlers c' = fileContentHandlers c \<and>
         commandResultHandlers c' = commandResultHandlers c \<and>
         messageHandlers c' = messageHandlers c \<and>
         invoked c' = invoked c \<and>
         console c' = console c \<and>
         length (promises c') = length (promises c) \<and>
         (\<forall>j. j \<noteq> k \<longrightarrow> promises c' ! j = promises c ! j) \<and>
         (find (matching p) ms = None \<longrightarrow>
            c' = c\<lparr>sent := sent c @ [GET (serverUrl c @ ''/ping?client=claude''),
                                     GET (serverUrl c @ ''/claude/messages'')]\<rparr>)) \<and>
     fst (get_claude_messages r) = claude r \<and>
     claude (snd (get_claude_messages r)) = [] \<and>
     \<not> ping_claude (snd (get_claude_messages r))"
  using assms
  unfolding checkTick_def Let_def get_claude_messages_def ping_claude_def
  by (simp add: settle_other settle_frame clearTimeout_def clearInterval_def send_def
      split: option.splits)

text \<open>
  A connected client with one observer, a \<^verbatim>\<open>getFile\<close> call (promise 0) and an
  \<^verbatim>\<open>updateFile\<close> call (promise 1) in flight.
\<close>

definition demo_update :: client where
  "demo_update = run [ProbeReturns (Http True ''OK'' (Inr ''1.00'')),
                      OnMessage 7,
                      GetFile ''a.txt'' 1 (Http True ''OK'' (Inr ())),
                      UpdateFile ''b.txt'' ''hello'' 2 (Http True ''OK'' (Inr ()))]
                   (new_client ''http://localhost:2612'')"

lemma demo_update_eval:
  "checkIntervals demo_update = [(1, ''b.txt'', 1000)]"
  "promises demo_update = [Pending, Pending]"
  "invoked demo_update = []"
  "messageHandlers demo_update = [7]"
  "fileContentHandlers demo_update ''a.txt'' = Some 0"
  by (simp_all add: demo_update_def client_defs)

theorem check_loop_discards_witness:
  "map_of (checkIntervals demo_update) 1 = Some (''b.txt'', 1000) \<and>
   (let c' = checkTick 1 (Http True ''OK'' (Inr True))
               (Http True ''OK''
                  (Inr [(envelope ''fileContent'')\<lparr>path := Some ''a.txt'', content := Some ''data''\<rparr>,
                        (envelope ''message'')\<lparr>content := Some ''hi''\<rparr>]))
               demo_update
    in promises c' ! 0 = Pending \<and> invoked c' = [] \<and> fileContentHandlers c' ''a.txt'' = Some 0)"
  using check_loop_discards
    [of demo_update 1 "''b.txt''" 1000 True "''OK''" True "''OK''"
        "[(envelope ''fileContent'')\<lparr>path := Some ''a.txt'', content := Some ''data''\<rparr>,
          (envelope ''message'')\<lparr>content := Some ''hi''\<rparr>]"]
  by (simp add: demo_update_eval Let_def)


section \<open>Evaluating decimal numerals\<close>

lemma digit_eval:
  "digit 0 = CHR ''0''" "digit 1 = CHR ''1''" "digit 2 = CHR ''2''" "digit 3 = CHR ''3''"
  "digit 4 = CHR ''4''" "digit 5 = CHR ''5''" "digit 6 = CHR ''6''" "digit 7 = CHR ''7''"
  "digit 8 = CHR ''8''" "digit 9 = CHR ''9''" "digit (Suc 0) = CHR ''1''"
  unfolding digit_def by code_simp+

section \<open>Chat envelopes\<close>

lemma message_fans_out:
  "handleMessage (m\<lparr>mtype := ''message''\<rparr>) c =
     Inr (c\<lparr>invoked := invoked c @ map (\<lambda>h. (h, content m, msg_from m)) (messageHandlers c)\<rparr>)"
  by (simp add: handleMessage_def notify_def)

lemma fileChanged_fans_out:
  "handleMessage (m\<lparr>mtype := ''fileChanged''\<rparr>) c =
     Inr (c\<lparr>console := console c @ [''File changed externally: '' @ str (path m)],
            invoked := invoked c @
              map (\<lambda>h. (h, Some (''File changed: '' @ str (path m)), Some ''system''))
                (messageHandlers c)\<rparr>)"
  by (simp add: handleMessage_def notify_def log_def)

text \<open>
  C8. Both \<^verbatim>\<open>sendMessage\<close> methods post a chat message with the type \<^verbatim>\<open>text\<close>, and the
  relay stores it under that type. \<^verbatim>\<open>handleMessage\<close> has no case for it (its chat case
  is \<^verbatim>\<open>message\<close>): a drained \<^verbatim>\<open>text\<close> envelope leaves the client unchanged, so no
  observer is called. Below, a poll tick of a client with the observer 7 drains one
  \<^verbatim>\<open>text\<close> envelope: the tick logs the count and nothing else happens.
\<close>

theorem text_envelope_reaches_no_observer:
  "handleMessage (m\<lparr>mtype := ''text''\<rparr>) c = Inr c \<and>
   received (store [(''content'', JString x), (''type'', JString ''text'')] now)
     = (envelope ''text'')\<lparr>content := Some x\<rparr> \<and>
   messageHandlers demo_update = [7] \<and>
   pollTick (Http True ''OK'' (Inr True))
     (Http True ''OK'' (Inr [(envelope ''text'')\<lparr>content := Some ''hi''\<rparr>])) demo_update
   = demo_update\<lparr>sent := sent demo_update @
                       [GET ''http://localhost:2612/ping?client=claude'',
                        GET ''http://localhost:2612/claude/messages''],
                 console := console demo_update @ [''Received 1 messages from Cline'']\<rparr>"
  apply (intro conjI)
     apply (simp add: handleMessage_def)
    apply (simp add: received_def store_def envelope_def)
   apply (simp add: demo_update_eval)
  apply (simp add: demo_update_def client_defs decimal.simps digit_eval)
  done

section \<open>The two drains of one mailbox\<close>

text \<open>
  When the check interval of an \<^verbatim>\<open>updateFile\<close> call is the one that drains the
  confirmation, the call resolves.
\<close>

lemma updateFile_resolves_when_check_drains:
  assumes "map_of (checkIntervals c) k = Some (p, period)" "k < length (promises c)"
    "promises c ! k = Pending"
    "find (matching p) ms = Some m" "success m = Some True"
  shows "promises (checkTick k (Http ok st (Inr True)) (Http ok' st' (Inr ms)) c) ! k
           = Resolved (UpdateOk True (''File '' @ p @ '' updated successfully''))"
  using assms unfolding checkTick_def Let_def
  by (simp add: settle_def clearTimeout_def clearInterval_def send_def)

text \<open>
  The timer of an \<^verbatim>\<open>updateFile\<close> call does not stop the call's check interval, which
  goes on draining the mailbox after the call was rejected.
\<close>

lemma check_interval_survives_timeout:
  "checkIntervals (timeoutFires k c) = checkIntervals c"
  by (simp add: timeoutFires_def settle_def clearTimeout_def Let_def
      split: option.splits timer.splits prod.splits)

text \<open>The main poll loop only logs an \<^verbatim>\<open>updateCodeResult\<close>.\<close>

lemma updateCodeResult_only_logged:
  "handleMessage (m\<lparr>mtype := ''updateCodeResult''\<rparr>) c =
     Inr (c\<lparr>console := console c @
            [''File update '' @ (if success m = Some True then ''succeeded'' else ''failed'')
               @ '': '' @ str (path m)] @
            (if truthy (error m) then [''Update error: '' @ str (error m)] else [])\<rparr>)"
  by (simp add: handleMessage_def log_def Let_def)

text \<open>
  C2. A connected client calls \<^verbatim>\<open>updateFile("a.txt", "hello")\<close>; the relay accepts the
  request. The confirmation \<^verbatim>\<open>updateCodeResult{path: "a.txt", success: true}\<close> reaches the
  party in the batch drained by the next tick of the main poll loop, which logs it. The
  ticks of the call's own check interval then find the mailbox empty, and after 30 seconds
  the call's timer rejects the promise.
\<close>

theorem updateFile_times_out_after_poll_drains:
  "promises
     (run [ProbeReturns (Http True ''OK'' (Inr ''1.00'')),
           UpdateFile ''a.txt'' ''hello'' 1 (Http True ''OK'' (Inr ())),
           PollTick (Http True ''OK'' (Inr True))
             (Http True ''OK''
                (Inr [(envelope ''updateCodeResult'')\<lparr>path := Some ''a.txt'', success := Some True\<rparr>])),
           CheckTick 0 (Http True ''OK'' (Inr False)) (Http True ''OK'' (Inr [])),
           TimeoutFires 0]
        (new_client ''http://localhost:2612''))
   = [Rejected ''Timeout waiting for file update confirmation'']"
  by (simp add: client_defs decimal.simps digit_eval)


section \<open>Calls made while disconnected\<close>

text \<open>
  C4, as the claim states it, fails for \<^verbatim>\<open>notifyFileChanged\<close>: called on a tool that is
  not connected, it resolves (with \<^verbatim>\<open>undefined\<close>) instead of failing.
\<close>

theorem notifyFileChanged_disconnected_resolves:
  "\<not> connected new_tool \<and>
   fst (notifyFileChanged ''a.txt'' ''hello'' (Http True ''OK'' (Inr ())) new_tool)
     \<noteq> Inl ''Not connected to bridge server'' \<and>
   notifyFileChanged ''a.txt'' ''hello'' (Http True ''OK'' (Inr ())) new_tool = (Inr (), new_tool)"
  by (simp add: notifyFileChanged_def new_tool_def)

text \<open>
  C4, amended. While \<^verbatim>\<open>connected\<close> is false, the five outbound calls of the Claude-side
  client and \<^verbatim>\<open>sendMessage\<close> and \<^verbatim>\<open>sendFile\<close> of the Cline-side tool are rejected at once
  with the error \<^verbatim>\<open>Not connected to bridge server\<close>, and \<^verbatim>\<open>notifyFileChanged\<close> returns
  at once without an error; in every case the state is unchanged, so no request is sent and
  nothing reaches the relay.
\<close>

theorem disconnected_calls_send_nothing:
  "(\<not> connected c \<longrightarrow>
      getFile p now r1 c = (Inl ''Not connected to bridge server'', c) \<and>
      updateFile p cont now r1 c = (Inl ''Not connected to bridge server'', c) \<and>
      executeCommand cmd now r1 c = (Inl ''Not connected to bridge server'', c) \<and>
      sendMessage cont r2 c = (Inl ''Not connected to bridge server'', c) \<and>
      sendFile name cont r2 c = (Inl ''Not connected to bridge server'', c)) \<and>
   (\<not> connected t \<longrightarrow>
      cline_sendMessage cont r2 t = (Inl ''Not connected to bridge server'', t) \<and>
      cline_sendFile name cont r2 t = (Inl ''Not connected to bridge server'', t) \<and>
      notifyFileChanged p cont r3 t = (Inr (), t))"
  by (simp add: getFile_def updateFile_def executeCommand_def sendMessage_def sendFile_def
      cline_sendMessage_def cline_sendFile_def notifyFileChanged_def)

theorem disconnected_calls_send_nothing_witness:
  "\<not> connected (new_client ''http://localhost:2612'') \<and> \<not> connected new_tool \<and>
   sent (snd (getFile ''a.txt'' 1 (Http True ''OK'' (Inr ())) (new_client ''http://localhost:2612''))) = [] \<and>
   fst (getFile ''a.txt'' 1 (Http True ''OK'' (Inr ())) (new_client ''http://localhost:2612''))
     = Inl ''Not connected to bridge server'' \<and>
   sent (snd (cline_sendMessage ''hi'' (Http True ''OK'' (Inr ())) new_tool)) = []"
proof -
  have nc: "\<not> connected (new_client ''http://localhost:2612'')"
    by (simp add: new_client_def)
  have nt: "\<not> connected new_tool"
    by (simp add: new_tool_def)
  have "getFile ''a.txt'' 1 (Http True ''OK'' (Inr ())) (new_client ''http://localhost:2612'')
          = (Inl ''Not connected to bridge server'', new_client ''http://localhost:2612'')"
    and "cline_sendMessage ''hi'' (Http True ''OK'' (Inr ())) new_tool
          = (Inl ''Not connected to bridge server'', new_tool)"
    using disconnected_calls_send_nothing
      [of "new_client ''http://localhost:2612''" "''a.txt''" 1 "Http True ''OK'' (Inr ())" "''hi''"
        "''ls''" "Http True ''OK'' (Inr ())" "''n''" new_tool "Http True ''OK'' (Inr ())"] nc nt
    by simp_all
  then show ?thesis
    using nc nt by (simp add: new_client_def new_tool_def)
qed

section \<open>The handshake\<close>

text \<open>
  C3. When the probe of \<^verbatim>\<open>/status\<close> throws \<open>e\<close>, the constructor of either class leaves
  the client disconnected and the error text in the log, and the promise of
  \<^verbatim>\<open>connectToServer\<close> is rejected with \<^verbatim>\<open>Bridge server not available: e\<close>; the constructor
  attached no handler to it. When the probe is answered with a status that is not
  \<^verbatim>\<open>ok\<close>, nothing but the line \<^verbatim>\<open>Connecting to bridge server ...\<close> is logged.
\<close>

theorem failed_probe_rejection_is_unhandled:
  "ClaudeMCPClient url (NetworkError e) =
     (new_client url)
       \<lparr>console := [''Connecting to bridge server at '' @ url @ ''...'', errorMsg url],
        sent := [GET (url @ ''/status'')],
        unhandled := [''Bridge server not available: '' @ e]\<rparr> \<and>
   ClaudeBridgeTool (NetworkError e) =
     new_tool
       \<lparr>console := [''Connecting to bridge server at '' @ BRIDGE_SERVER_URL @ ''...'',
                    errorMsg BRIDGE_SERVER_URL],
        sent := [GET (BRIDGE_SERVER_URL @ ''/status'')],
        unhandled := [''Bridge server not available: '' @ e]\<rparr> \<and>
   ClaudeMCPClient url (Http False statusText body) =
     (new_client url)
       \<lparr>console := [''Connecting to bridge server at '' @ url @ ''...''],
        sent := [GET (url @ ''/status'')]\<rparr> \<and>
   ClaudeBridgeTool (Http False statusText body) =
     new_tool
       \<lparr>console := [''Connecting to bridge server at '' @ BRIDGE_SERVER_URL @ ''...''],
        sent := [GET (BRIDGE_SERVER_URL @ ''/status'')]\<rparr>"
  by (simp add: ClaudeMCPClient_def ClaudeBridgeTool_def connectToServer_def
      cline_connectToServer_def dropped_def cline_dropped_def new_client_def new_tool_def
      log_def send_def context_log_def fetch_def Let_def)


section \<open>Collaborator failures on the executing side\<close>

text \<open>
  C7, as the claim states it, fails for \<^verbatim>\<open>fileRequest\<close>: the reply to a failed
  \<^verbatim>\<open>readFile\<close> has the fields \<^verbatim>\<open>type\<close>, \<^verbatim>\<open>path\<close> and \<^verbatim>\<open>error\<close>, and no field
  \<^verbatim>\<open>success\<close>.
\<close>

theorem fileRequest_failure_reply_without_success:
  "sent (cline_handleMessage ((envelope ''fileRequest'')\<lparr>path := Some ''missing/x.txt''\<rparr>)
           (Throws ''ENOENT: no such file'') (Http True ''OK'' (Inr ())) (Http True ''OK'' (Inr ()))
           new_tool)
     = [POST ''http://localhost:2612/cline/message''
          [(''type'', JString ''fileContent''), (''path'', JString ''missing/x.txt''),
           (''error'', JString ''ENOENT: no such file'')]] \<and>
   map_of [(''type'', JString ''fileContent''), (''path'', JString ''missing/x.txt''),
           (''error'', JString ''ENOENT: no such file'')] ''success'' = None"
  by (simp add: cline_handleMessage_def handleFileRequest_def envelope_def new_tool_def
      context_log_def fetch_def reply_def field_def thrown_def BRIDGE_SERVER_URL_def Let_def)

lemma fetch_frame:
  "connected (fetch r t) = connected t" "reconnects (fetch r t) = reconnects t"
  "unhandled (fetch r t) = unhandled t" "pollInterval (fetch r t) = pollInterval t"
  "console (fetch r t) = console t" "sent (fetch r t) = sent t @ [r]"
  by (simp_all add: fetch_def)

lemma context_log_frame:
  "connected (context_log l t) = connected t" "reconnects (context_log l t) = reconnects t"
  "unhandled (context_log l t) = unhandled t" "pollInterval (context_log l t) = pollInterval t"
  "sent (context_log l t) = sent t"
  by (simp_all add: context_log_def)

lemma handleFileRequest_frame:
  "connected (snd (handleFileRequest m collab post1 post2 t)) = connected t"
  "reconnects (snd (handleFileRequest m collab post1 post2 t)) = reconnects t"
  "unhandled (snd (handleFileRequest m collab post1 post2 t)) = unhandled t"
  by (simp_all add: handleFileRequest_def fetch_frame Let_def split: outcome.splits option.splits)

lemma handleUpdateCode_frame:
  "connected (snd (handleUpdateCode m collab post1 post2 t)) = connected t"
  "reconnects (snd (handleUpdateCode m collab post1 post2 t)) = reconnects t"
  "unhandled (snd (handleUpdateCode m collab post1 post2 t)) = unhandled t"
  by (simp_all add: handleUpdateCode_def fetch_frame Let_def split: outcome.splits option.splits)

lemma handleExecuteCommand_frame:
  "connected (snd (handleExecuteCommand m collab post1 post2 t)) = connected t"
  "reconnects (snd (handleExecuteCommand m collab post1 post2 t)) = reconnects t"
  "unhandled (snd (handleExecuteCommand m collab post1 post2 t)) = unhandled t"
  by (simp_all add: handleExecuteCommand_def fetch_frame Let_def split: outcome.splits option.splits)

lemma handleMcpInvoke_frame:
  "connected (snd (handleMcpInvoke m collab post1 post2 t)) = connected t"
  "reconnects (snd (handleMcpInvoke m collab post1 post2 t)) = reconnects t"
  "unhandled (snd (handleMcpInvoke m collab post1 post2 t)) = unhandled t"
  by (simp_all add: handleMcpInvoke_def fetch_frame Let_def split: sum.splits option.splits)

lemmas handler_frames = handleFileRequest_frame handleUpdateCode_frame
  handleExecuteCommand_frame handleMcpInvoke_frame

lemma cline_handleMessage_frame:
  "connected (cline_handleMessage m collab post1 post2 t) = connected t"
  "reconnects (cline_handleMessage m collab post1 post2 t) = reconnects t"
  "unhandled (cline_handleMessage m collab post1 post2 t) = unhandled t"
  by (simp_all add: cline_handleMessage_def Let_def handler_frames context_log_frame
      split: option.splits)

lemma failed_collaborator_sent:
  "sent (snd (handleFileRequest m (Throws e) post1 post2 t)) =
     sent t @ [reply ([(''type'', JString ''fileContent'')] @ field ''path'' (path m)
                       @ [(''error'', JString e)])]"
  "sent (snd (handleUpdateCode m (Throws e) post1 post2 t)) =
     sent t @ [reply ([(''type'', JString ''updateCodeResult'')] @ field ''path'' (path m)
                       @ [(''success'', JBool False), (''error'', JString e)])]"
  "sent (snd (handleExecuteCommand m (Throws e) post1 post2 t)) =
     sent t @ [reply ([(''type'', JString ''commandResult'')] @ field ''command'' (command m)
                       @ [(''success'', JBool False), (''error'', JString e)])]"
  by (simp_all add: handleFileRequest_def handleUpdateCode_def handleExecuteCommand_def
      fetch_frame Let_def)

lemma cline_handleMessage_sent:
  "sent (cline_handleMessage m collab post1 post2 t) =
     (if mtype m = ''fileRequest'' then sent (snd (handleFileRequest m collab post1 post2 t))
      else if mtype m = ''updateCode'' then sent (snd (handleUpdateCode m collab post1 post2 t))
      else if mtype m = ''executeCommand''
        then sent (snd (handleExecuteCommand m collab post1 post2 t))
      else if mtype m = ''message'' then sent t
      else if mtype m = ''mcp_invoke'' then sent (snd (handleMcpInvoke m collab post1 post2 t))
      else sent t)"
  by (simp add: cline_handleMessage_def Let_def context_log_frame
      handleFileRequest_def handleUpdateCode_def handleExecuteCommand_def handleMcpInvoke_def
      fetch_def context_log_def
      split: option.splits outcome.splits sum.splits)

lemma cline_pollTick_one:
  "pollInterval t \<noteq> None \<Longrightarrow>
   cline_pollTick (Http ok st (Inr True)) (Http ok' st' (Inr [(m, collab, post1, post2)])) t =
     cline_handleMessage m collab post1 post2
       (context_log ''Received 1 messages from Claude''
          (fetch (GET (BRIDGE_SERVER_URL @ ''/cline/messages''))
             (fetch (GET (BRIDGE_SERVER_URL @ ''/ping?client=cline'')) t)))"
  by (auto simp: cline_pollTick_def Let_def decimal.simps digit_eval)

text \<open>
  C7, amended. When the collaborator call of an inbound \<^verbatim>\<open>fileRequest\<close>,
  \<^verbatim>\<open>updateCode\<close> or \<^verbatim>\<open>executeCommand\<close> throws \<open>e\<close>, the handler posts one reply to the
  relay: for \<^verbatim>\<open>updateCode\<close> and \<^verbatim>\<open>executeCommand\<close> it carries \<^verbatim>\<open>success: false\<close> and
  \<^verbatim>\<open>error: e\<close>, for \<^verbatim>\<open>fileRequest\<close> it carries \<^verbatim>\<open>error: e\<close> and no \<^verbatim>\<open>success\<close> field.
  \<^verbatim>\<open>handleMessage\<close> returns normally whatever the collaborator and the transport do (an
  error of the second \<^verbatim>\<open>fetch\<close> is logged), so the poll tick that dispatched the message
  does not enter its \<^verbatim>\<open>catch\<close> block: the connection state and the reconnect timers are as
  before.
\<close>

theorem collaborator_failure_becomes_reply:
  "(mtype m = ''fileRequest'' \<longrightarrow>
      sent (cline_handleMessage m (Throws e) post1 post2 t) =
        sent t @ [reply ([(''type'', JString ''fileContent'')] @ field ''path'' (path m)
                          @ [(''error'', JString e)])]) \<and>
   (mtype m = ''updateCode'' \<longrightarrow>
      sent (cline_handleMessage m (Throws e) post1 post2 t) =
        sent t @ [reply ([(''type'', JString ''updateCodeResult'')] @ field ''path'' (path m)
                          @ [(''success'', JBool False), (''error'', JString e)])]) \<and>
   (mtype m = ''executeCommand'' \<longrightarrow>
      sent (cline_handleMessage m (Throws e) post1 post2 t) =
        sent t @ [reply ([(''type'', JString ''commandResult'')] @ field ''command'' (command m)
                          @ [(''success'', JBool False), (''error'', JString e)])]) \<and>
   connected (cline_handleMessage m collab post1 post2 t) = connected t \<and>
   reconnects (cline_handleMessage m collab post1 post2 t) = reconnects t \<and>
   unhandled (cline_handleMessage m collab post1 post2 t) = unhandled t \<and>
   (pollInterval t \<noteq> None \<longrightarrow>
      cline_pollTick (Http ok st (Inr True)) (Http ok' st' (Inr [(m, collab, post1, post2)])) t =
        cline_handleMessage m collab post1 post2
          (context_log ''Received 1 messages from Claude''
             (fetch (GET (BRIDGE_SERVER_URL @ ''/cline/messages''))
                (fetch (GET (BRIDGE_SERVER_URL @ ''/ping?client=cline'')) t))))"
  by (simp add: cline_handleMessage_frame cline_handleMessage_sent failed_collaborator_sent
      cline_pollTick_one)

theorem collaborator_failure_becomes_reply_witness:
  "mtype ((envelope ''updateCode'')\<lparr>path := Some ''a.txt'', content := Some ''hello''\<rparr>) = ''updateCode'' \<and>
   sent (cline_handleMessage ((envelope ''updateCode'')\<lparr>path := Some ''a.txt'', content := Some ''hello''\<rparr>)
           (Throws ''EACCES: permission denied'') (Http True ''OK'' (Inr ()))
           (Http True ''OK'' (Inr ())) new_tool)
     = [POST ''http://localhost:2612/cline/message''
          [(''type'', JString ''updateCodeResult''), (''path'', JString ''a.txt''),
           (''success'', JBool False), (''error'', JString ''EACCES: permission denied'')]]"
  using collaborator_failure_becomes_reply
    [of "(envelope ''updateCode'')\<lparr>path := Some ''a.txt'', content := Some ''hello''\<rparr>"
        "''EACCES: permission denied''" "Http True ''OK'' (Inr ())" "Http True ''OK'' (Inr ())"
        new_tool "Throws ''EACCES: permission denied''" True "''OK''" True "''OK''"]
  by (simp add: envelope_def field_def new_tool_def reply_def BRIDGE_SERVER_URL_def)

section \<open>Losing the connection and probing again\<close>

text \<open>
  C9, as the claim states it, fails in its second part: a tool that was connected loses a
  poll tick, which arms one probe after 5000 ms; the probe fails, and afterwards no probe is
  armed.
\<close>

theorem failed_probe_schedules_nothing:
  "reconnects
     (cline_pollTick (NetworkError ''ECONNREFUSED'')
        (NetworkError ''ECONNREFUSED'')
        (ClaudeBridgeTool (Http True ''OK'' (Inr ''1.00'')))) = [5000] \<and>
   reconnects
     (cline_reconnectFires (NetworkError ''ECONNREFUSED'')
        (cline_pollTick (NetworkError ''ECONNREFUSED'')
           (NetworkError ''ECONNREFUSED'')
           (ClaudeBridgeTool (Http True ''OK'' (Inr ''1.00''))))) = []"
  by (simp add: ClaudeBridgeTool_def cline_connectToServer_def cline_dropped_def new_tool_def
      cline_startPolling_def cline_pollTick_def cline_pollFailed_def cline_reconnectFires_def
      context_log_def fetch_def Let_def)

lemma handle_all_frame:
  "connected (handle_all ms t) = connected t \<and> reconnects (handle_all ms t) = reconnects t"
  by (induction ms t rule: handle_all.induct) (simp_all add: cline_handleMessage_frame)

lemma cline_pollFailed_effect:
  "connected t \<Longrightarrow> \<not> connected (cline_pollFailed e t)"
  "connected t \<Longrightarrow> reconnects (cline_pollFailed e t) = reconnects t @ [5000]"
  "\<not> connected t \<Longrightarrow> \<not> connected (cline_pollFailed e t)"
  "\<not> connected t \<Longrightarrow> reconnects (cline_pollFailed e t) = reconnects t"
  by (simp_all add: cline_pollFailed_def context_log_def Let_def)

lemma cline_pollTick_disconnected:
  "\<not> connected t \<Longrightarrow>
   \<not> connected (cline_pollTick ping d t) \<and> reconnects (cline_pollTick ping d t) = reconnects t"
  by (simp add: cline_pollTick_def Let_def cline_pollFailed_effect fetch_frame context_log_frame
      handle_all_frame split: fetched.splits sum.splits)

lemma cline_connect_effect:
  "connected (snd (cline_connectToServer probe t)) \<longleftrightarrow>
     connected t \<or> (\<exists>st up. probe = Http True st (Inr up))"
  "reconnects (snd (cline_connectToServer probe t)) = reconnects t"
  by (auto simp: cline_connectToServer_def cline_startPolling_def context_log_def fetch_def Let_def
      split: fetched.splits sum.splits)

lemma cline_dropped_frame:
  "connected (cline_dropped r) = connected (snd r)" "reconnects (cline_dropped r) = reconnects (snd r)"
  by (simp_all add: cline_dropped_def split: option.splits)

lemma cline_reconnectFires_effect:
  "connected (cline_reconnectFires probe t) \<longleftrightarrow>
     connected t \<or> reconnects t \<noteq> [] \<and> (\<exists>st up. probe = Http True st (Inr up))"
  "reconnects (cline_reconnectFires probe t) = tl (reconnects t)"
  by (cases "reconnects t";
      simp add: cline_reconnectFires_def cline_dropped_frame cline_connect_effect)+

lemma cline_pollTick_fails:
  "connected t \<Longrightarrow> pollInterval t \<noteq> None \<Longrightarrow>
   \<not> connected (cline_pollTick (NetworkError e) d t) \<and>
   reconnects (cline_pollTick (NetworkError e) d t) = reconnects t @ [5000]"
  "connected t \<Longrightarrow> pollInterval t \<noteq> None \<Longrightarrow>
   \<not> connected (cline_pollTick (Http ok st (Inr True)) (NetworkError e) t) \<and>
   reconnects (cline_pollTick (Http ok st (Inr True)) (NetworkError e) t) = reconnects t @ [5000]"
  by (simp_all add: cline_pollTick_def Let_def cline_pollFailed_effect fetch_frame)

text \<open>
  A tick also fails when reading the body of an answer throws: the same \<^verbatim>\<open>catch\<close>
  block runs.
\<close>

lemma cline_pollTick_body_fails:
  "connected t \<Longrightarrow> pollInterval t \<noteq> None \<Longrightarrow>
   \<not> connected (cline_pollTick (Http ok st (Inl e)) d t) \<and>
   reconnects (cline_pollTick (Http ok st (Inl e)) d t) = reconnects t @ [5000]"
  "connected t \<Longrightarrow> pollInterval t \<noteq> None \<Longrightarrow>
   \<not> connected (cline_pollTick (Http ok st (Inr True)) (Http ok2 st2 (Inl e)) t) \<and>
   reconnects (cline_pollTick (Http ok st (Inr True)) (Http ok2 st2 (Inl e)) t)
     = reconnects t @ [5000]"
  by (simp_all add: cline_pollTick_def Let_def cline_pollFailed_effect fetch_frame)

lemma cline_reconnect_success:
  "reconnects t \<noteq> [] \<Longrightarrow>
   connected (cline_reconnectFires (Http True st (Inr up)) t) \<and>
   pollInterval (cline_reconnectFires (Http True st (Inr up)) t) = Some 2000"
  by (cases "reconnects t")
    (simp_all add: cline_reconnectFires_def cline_dropped_def cline_connectToServer_def
      cline_startPolling_def context_log_def fetch_def Let_def POLL_INTERVAL_def)

text \<open>
  C9, amended. The first poll tick that fails while the tool is connected (the ping or the
  drain request throws, or reading the body of either answer throws) makes it
  disconnected at once and arms exactly one probe, after 5000 ms. A poll tick while the tool
  is disconnected, failing or not, arms nothing. When the armed probe fires, its timer is
  used up and no other is armed, whether the probe succeeds or fails: after a failed probe
  the tool stays disconnected. The tool becomes connected only when a probe succeeds (which
  also starts the poll loop again), never by a poll tick and never by a failed probe.
\<close>

theorem reconnect_state_machine:
  "(connected t \<and> pollInterval t \<noteq> None \<longrightarrow>
      \<not> connected (cline_pollTick (NetworkError e) d t) \<and>
      reconnects (cline_pollTick (NetworkError e) d t) = reconnects t @ [5000] \<and>
      \<not> connected (cline_pollTick (Http ok st (Inr True)) (NetworkError e) t) \<and>
      reconnects (cline_pollTick (Http ok st (Inr True)) (NetworkError e) t) = reconnects t @ [5000] \<and>
      \<not> connected (cline_pollTick (Http ok st (Inl e)) d t) \<and>
      reconnects (cline_pollTick (Http ok st (Inl e)) d t) = reconnects t @ [5000] \<and>
      \<not> connected (cline_pollTick (Http ok st (Inr True)) (Http okd std (Inl e)) t) \<and>
      reconnects (cline_pollTick (Http ok st (Inr True)) (Http okd std (Inl e)) t)
        = reconnects t @ [5000]) \<and>
   (\<not> connected t \<longrightarrow>
      \<not> connected (cline_pollTick ping d t) \<and>
      reconnects (cline_pollTick ping d t) = reconnects t) \<and>
   reconnects (cline_reconnectFires probe t) = tl (reconnects t) \<and>
   (\<not> connected t \<and> \<not> (\<exists>st' up. probe = Http True st' (Inr up)) \<longrightarrow>
      \<not> connected (cline_reconnectFires probe t)) \<and>
   (\<not> connected t \<and> reconnects t \<noteq> [] \<longrightarrow>
      connected (cline_reconnectFires (Http True st (Inr uptime)) t) \<and>
      pollInterval (cline_reconnectFires (Http True st (Inr uptime)) t) = Some 2000)"
  by (simp add: cline_pollTick_fails cline_pollTick_body_fails cline_pollTick_disconnected
      cline_reconnectFires_effect cline_reconnect_success)

lemma tool_connected_eval:
  "ClaudeBridgeTool (Http True ''OK'' (Inr ''1.00'')) =
     \<lparr>connected = True, pollInterval = Some 2000, reconnects = [],
      console = [''Connecting to bridge server at http://localhost:2612...'',
                 ''Connected to server with uptime 1.00 seconds'',
                 ''Starting polling for messages at http://localhost:2612''],
      sent = [GET ''http://localhost:2612/status''], unhandled = []\<rparr>"
  by (simp add: ClaudeBridgeTool_def cline_connectToServer_def cline_dropped_def new_tool_def
      cline_startPolling_def context_log_def fetch_def Let_def BRIDGE_SERVER_URL_def
      POLL_INTERVAL_def)


theorem reconnect_state_machine_witness:
  "connected (ClaudeBridgeTool (Http True ''OK'' (Inr ''1.00''))) \<and>
   pollInterval (ClaudeBridgeTool (Http True ''OK'' (Inr ''1.00''))) = Some 2000 \<and>
   \<not> connected
       (cline_pollTick (NetworkError ''ECONNREFUSED'')
          (NetworkError ''ECONNREFUSED'')
          (ClaudeBridgeTool (Http True ''OK'' (Inr ''1.00'')))) \<and>
   reconnects
       (cline_pollTick (NetworkError ''ECONNREFUSED'')
          (NetworkError ''ECONNREFUSED'')
          (ClaudeBridgeTool (Http True ''OK'' (Inr ''1.00'')))) = [5000] \<and>
   \<not> connected
       (cline_pollTick (Http True ''OK'' (Inr True))
          (Http True ''OK'' (Inl ''ECONNREFUSED''))
          (ClaudeBridgeTool (Http True ''OK'' (Inr ''1.00'')))) \<and>
   reconnects
       (cline_pollTick (Http True ''OK'' (Inr True))
          (Http True ''OK'' (Inl ''ECONNREFUSED''))
          (ClaudeBridgeTool (Http True ''OK'' (Inr ''1.00'')))) = [5000]"
proof -
  let ?t = "ClaudeBridgeTool (Http True ''OK'' (Inr ''1.00''))"
  have c: "connected ?t" "pollInterval ?t = Some 2000" "reconnects ?t = []"
    by (simp_all add: tool_connected_eval)
  show ?thesis
    using c reconnect_state_machine
      [where t = "?t" and e = "''ECONNREFUSED''"
         and d = "NetworkError ''ECONNREFUSED''"
         and ok = True and st = "''OK''" and okd = True and std = "''OK''"
         and ping = "NetworkError ''ECONNREFUSED''"
         and probe = "NetworkError ''ECONNREFUSED''" and uptime = "''1.00''"]
    by simp
qed


section \<open>Decoding frames\<close>

lemmas codec_eval = frame_def units_def CRLF_def unit_bytes_def high_surrogate_def
  low_surrogate_def decimal.simps digit_eval on_data_def drain.simps next_length_def
  match_here_def is_digit_def parseInt_def Let_def

text \<open>
  C1. The encoder announces the number of UTF-8 bytes of the payload, the decoder counts
  UTF-16 code units. The payload below is the JSON text of a string of one character, U+00E9
  (a quote, the code unit 233, a quote): three code units, four bytes. Its frame, received whole, gives no
  message: the decoder waits for a fourth code unit. Two such frames received together
  give one message, the payload followed by the \<^verbatim>\<open>C\<close> of the second header, and the
  rest stays in the buffer.
\<close>

theorem non_ascii_frame_not_decoded:
  "byteLength [34, 233, 34] = 4 \<and>
   frame [34, 233, 34] = units ''Content-Length: 4'' @ CRLF @ CRLF @ [34, 233, 34] \<and>
   feed [frame [34, 233, 34]] ([], None) = ([], [34, 233, 34], Some 4) \<and>
   feed [frame [34, 233, 34] @ frame [34, 233, 34]] ([], None)
     = ([[34, 233, 34, 67]], units ''ontent-Length: 4'' @ CRLF @ CRLF @ [34, 233, 34], None)"
  by (simp add: codec_eval)

section \<open>Frames of ASCII payloads are decoded\<close>

definition ascii :: "jsstring \<Rightarrow> bool" where
  "ascii s \<longleftrightarrow> (\<forall>c \<in> set s. c < 128)"

lemma byteLength_ascii: "ascii s \<Longrightarrow> byteLength s = length s"
  by (induction s rule: byteLength.induct)
    (auto simp: ascii_def unit_bytes_def high_surrogate_def)

lemma of_char_digit: "d < 10 \<Longrightarrow> of_char (digit d) = 48 + d"
  by (simp add: digit_def)

lemma decimal_digits: "\<forall>c \<in> set (units (decimal n)). is_digit c"
proof (induction n rule: decimal.induct)
  case (1 n)
  show ?case
  proof (cases "n < 10")
    case True
    then show ?thesis
      by (subst decimal.simps) (simp add: units_def of_char_digit is_digit_def)
  next
    case False
    then show ?thesis
      using 1 by (subst decimal.simps) (simp add: units_def of_char_digit is_digit_def)
  qed
qed

lemma decimal_nonempty: "units (decimal n) \<noteq> []"
  by (subst decimal.simps) (simp add: units_def)

lemma parseInt_snoc: "parseInt (ds @ [c]) = 10 * parseInt ds + (c - 48)"
  by (simp add: parseInt_def)

lemma parseInt_decimal: "parseInt (units (decimal n)) = n"
proof (induction n rule: decimal.induct)
  case (1 n)
  show ?case
  proof (cases "n < 10")
    case True
    then show ?thesis
      by (subst decimal.simps) (simp add: units_def of_char_digit parseInt_def)
  next
    case False
    then have "parseInt (units (decimal (n div 10))) = n div 10"
      using 1 by simp
    then show ?thesis
      using False
      by (subst decimal.simps)
        (simp add: units_def of_char_digit parseInt_snoc [unfolded units_def])
  qed
qed

text \<open>The header of the frame of a payload, and how the expression matches it.\<close>

definition head :: "jsstring \<Rightarrow> jsstring" where
  "head cont = units ''Content-Length: '' @ units (decimal (byteLength cont)) @ CRLF @ CRLF"

lemma frame_head: "frame cont = head cont @ cont"
  by (simp add: frame_def head_def)

lemma length_prefix [simp]: "length (units ''Content-Length: '') = 16"
  by (simp add: units_def)

lemma CR_not_digit: "\<not> is_digit 13"
  by (simp add: is_digit_def)

lemma match_here_header:
  assumes "ds \<noteq> []" "\<forall>c \<in> set ds. is_digit c"
  shows "match_here (units ''Content-Length: '' @ ds @ CRLF @ CRLF @ X) = Some (ds, 20 + length ds)"
proof -
  have t: "takeWhile is_digit (ds @ CRLF @ CRLF @ X) = ds"
    using assms(2) by (simp add: takeWhile_append2 CRLF_def CR_not_digit)
  have d: "dropWhile is_digit (ds @ CRLF @ CRLF @ X) = CRLF @ CRLF @ X"
    using assms(2) by (simp add: dropWhile_append2 CRLF_def CR_not_digit)
  show ?thesis
    unfolding match_here_def using assms(1) by (simp add: t d Let_def) (simp add: CRLF_def)
qed

lemma match_here_SomeD:
  assumes "match_here s = Some (ds, len)"
  shows "\<exists>X. s = units ''Content-Length: '' @ ds @ CRLF @ CRLF @ X \<and> ds \<noteq> [] \<and>
             (\<forall>c \<in> set ds. is_digit c) \<and> len = 20 + length ds"
proof -
  let ?rest = "dropWhile is_digit (drop 16 s)"
  from assms have h: "take 16 s = units ''Content-Length: ''"
    and ds: "ds = takeWhile is_digit (drop 16 s)" "ds \<noteq> []"
    and r: "take 4 ?rest = CRLF @ CRLF" and len: "len = 20 + length ds"
    by (auto simp: match_here_def Let_def split: if_splits)
  have "s = take 16 s @ drop 16 s" by simp
  also have "drop 16 s = ds @ ?rest" by (simp add: ds)
  also have "?rest = take 4 ?rest @ drop 4 ?rest" by simp
  finally have "s = units ''Content-Length: '' @ ds @ CRLF @ CRLF @ drop 4 ?rest"
    by (simp add: h r)
  moreover have "\<forall>c \<in> set ds. is_digit c"
    unfolding ds by (auto dest: set_takeWhileD)
  ultimately show ?thesis using ds(2) len by blast
qed

lemma search_found: "match_here s = Some r \<Longrightarrow> search s = Some r"
  by (cases s) simp_all

lemma match_here_first: "c \<noteq> 67 \<Longrightarrow> match_here (c # cs) = None"
  by (auto simp: match_here_def units_def)

lemma search_no_C: "\<forall>c \<in> set s. c \<noteq> 67 \<Longrightarrow> search s = None"
proof (induction s)
  case Nil
  then show ?case by (simp add: match_here_def units_def)
next
  case (Cons c cs)
  then have "match_here (c # cs) = None" by (simp add: match_here_first)
  then show ?case using Cons by simp
qed

lemma head_no_C: "\<forall>c \<in> set (tl (head cont)). c \<noteq> 67"
  using decimal_digits [of "byteLength cont"]
  by (auto simp: head_def units_def CRLF_def is_digit_def)

lemma head_length: "length (head cont) = 20 + length (units (decimal (byteLength cont)))"
  by (simp add: head_def CRLF_def)

text \<open>A text that ends inside the header has no match.\<close>

lemma match_here_partial_head:
  assumes "r @ Z = head cont" "Z \<noteq> []"
  shows "match_here r = None"
proof (rule ccontr)
  let ?D = "units (decimal (byteLength cont))"
  assume "match_here r \<noteq> None"
  then obtain ds len where "match_here r = Some (ds, len)" by auto
  then obtain X where r: "r = units ''Content-Length: '' @ ds @ CRLF @ CRLF @ X"
    and ds: "\<forall>c \<in> set ds. is_digit c"
    using match_here_SomeD by blast
  from assms(1) r have e: "ds @ CRLF @ CRLF @ X @ Z = ?D @ CRLF @ CRLF"
    by (simp add: head_def)
  have "takeWhile is_digit (ds @ CRLF @ CRLF @ X @ Z) = ds"
    using ds by (simp add: takeWhile_append2 CRLF_def CR_not_digit)
  moreover have "takeWhile is_digit (?D @ CRLF @ CRLF) = ?D"
    using decimal_digits [of "byteLength cont"]
    by (simp add: takeWhile_append2 CRLF_def CR_not_digit)
  ultimately have "ds = ?D" using e by simp
  with e have "X @ Z = []" by simp
  with assms(2) show False by simp
qed

lemma search_partial_head:
  assumes "r @ Z = head cont" "Z \<noteq> []"
  shows "search r = None"
proof (cases r)
  case Nil
  then show ?thesis by (simp add: match_here_def units_def)
next
  case (Cons c cs)
  then have "cs @ Z = tl (head cont)" using assms(1) by (metis list.sel(3) append_Cons)
  then have "set cs \<subseteq> set (tl (head cont))" by (metis set_append Un_upper1)
  then have "search cs = None" using head_no_C [of cont] by (intro search_no_C) blast
  moreover have "match_here (c # cs) = None"
    using match_here_partial_head [OF assms] Cons by simp
  ultimately show ?thesis using Cons by simp
qed

lemma match_here_head:
  "match_here (head cont @ X) = Some (units (decimal (byteLength cont)), length (head cont))"
  using match_here_header [OF decimal_nonempty decimal_digits, of "byteLength cont" X]
  by (simp add: head_def CRLF_def)

lemma head_nonempty: "head cont \<noteq> []"
  by (simp add: head_def units_def)

lemma next_length_head:
  "ascii cont \<Longrightarrow> next_length (head cont @ X) None = Some (X, length cont)"
  by (simp add: next_length_def search_found [OF match_here_head] parseInt_decimal
      byteLength_ascii)

text \<open>A whole frame at the front of the buffer is taken, and the loop goes on with the rest.\<close>

lemma drain_frame:
  assumes "ascii cont"
  shows "drain (frame cont @ T) None = (cont # fst (drain T None), snd (drain T None))"
proof -
  have "drain (head cont @ cont @ T) None = (cont # fst (drain T None), snd (drain T None))"
    by (subst drain.simps) (simp add: head_nonempty next_length_head [OF assms] Let_def)
  then show ?thesis by (simp add: frame_head)
qed

lemma drain_frames:
  "\<forall>p \<in> set ps. ascii p \<Longrightarrow>
   drain (concat (map frame ps) @ T) None = (ps @ fst (drain T None), snd (drain T None))"
  by (induction ps) (simp_all add: drain_frame)

lemma drain_empty: "drain [] cl = ([], [], cl)"
  by (subst drain.simps) simp

text \<open>A buffer that ends inside a header is left as it is.\<close>

lemma drain_partial_head:
  assumes "r @ Z = head cont" "Z \<noteq> []"
  shows "drain r None = ([], r, None)"
proof (cases "r = []")
  case True
  then show ?thesis by (simp add: drain_empty)
next
  case False
  then show ?thesis
    by (subst drain.simps) (simp add: next_length_def search_partial_head [OF assms])
qed

text \<open>
  A buffer that holds a header and less than the announced length: the header is cut off
  and the length is kept; more text is then handled as if it had come with the header.
\<close>

lemma drain_partial_body:
  assumes "ascii cont" "length q < length cont"
  shows "drain (head cont @ q) None = ([], q, Some (length cont))"
  using assms
  by (subst drain.simps) (simp add: head_nonempty next_length_head)

lemma drain_resume:
  assumes "ascii cont" "length q < length cont"
  shows "drain (head cont @ q @ y) None = drain (q @ y) (Some (length cont))"
proof (cases "q @ y = []")
  case True
  then show ?thesis
    using drain_partial_body [OF assms] by (simp add: drain_empty)
next
  case False
  have "drain (head cont @ (q @ y)) None =
      (if length (q @ y) < length cont then ([], q @ y, Some (length cont))
       else (let r = drain (drop (length cont) (q @ y)) None
             in (take (length cont) (q @ y) # fst r, snd r)))"
    by (subst drain.simps) (simp add: head_nonempty next_length_head [OF assms(1)])
  moreover have "drain (q @ y) (Some (length cont)) =
      (if length (q @ y) < length cont then ([], q @ y, Some (length cont))
       else (let r = drain (drop (length cont) (q @ y)) None
             in (take (length cont) (q @ y) # fst r, snd r)))"
    using False by (subst drain.simps) (auto simp: next_length_def)
  ultimately show ?thesis by simp
qed

text \<open>Every prefix of a stream of frames is some whole frames and the start of one more.\<close>

lemma stream_prefix:
  "R @ Y = concat (map frame ps) \<Longrightarrow>
   \<exists>ps1 r. R = concat (map frame ps1) @ r \<and> set ps1 \<subseteq> set ps \<and>
     (r = [] \<or> (\<exists>p Z. p \<in> set ps \<and> Z \<noteq> [] \<and> r @ Z = frame p))"
proof (induction ps arbitrary: R Y)
  case Nil
  then show ?case by (intro exI [of _ "[]"]) simp
next
  case (Cons p ps)
  from Cons.prems have "R @ Y = frame p @ concat (map frame ps)" by simp
  then consider
    (whole) R' where "R = frame p @ R'" "R' @ Y = concat (map frame ps)"
    | (part) Z where "R @ Z = frame p" "Z \<noteq> []"
    by (auto simp: append_eq_append_conv2) (metis append_Nil2 self_append_conv2)+
  then show ?case
  proof cases
    case whole
    from Cons.IH [OF whole(2)] obtain ps1 r where
      "R' = concat (map frame ps1) @ r" "set ps1 \<subseteq> set ps"
      "r = [] \<or> (\<exists>p Z. p \<in> set ps \<and> Z \<noteq> [] \<and> r @ Z = frame p)"
      by blast
    then show ?thesis
      using whole(1) by (intro exI [of _ "p # ps1"] exI [of _ r]) auto
  next
    case part
    then show ?thesis
      by (intro exI [of _ "[]"] exI [of _ R]) auto
  qed
qed

lemma frame_prefix_cases:
  assumes "r @ Z = frame cont" "Z \<noteq> []"
  obtains (in_head) Z' where "r @ Z' = head cont" "Z' \<noteq> []"
    | (in_body) q where "r = head cont @ q" "length q < length cont"
proof -
  from assms(1) have "r @ Z = head cont @ cont" by (simp add: frame_head)
  then consider us where "r = head cont @ us" "us @ Z = cont"
    | us where "r @ us = head cont" "us @ cont = Z" "us \<noteq> []"
    by (auto simp: append_eq_append_conv2) (metis append_Nil2 append_Nil)+
  then show ?thesis
  proof cases
    case 1
    then have "length us < length cont" using assms(2) by auto
    with 1 show ?thesis by (intro in_body)
  next
    case 2
    then show ?thesis by (intro in_head)
  qed
qed

text \<open>
  Receiving a stream of frames in two pieces gives the messages of the whole and leaves the
  state of the whole.
\<close>

lemma drain_in_two:
  assumes "\<forall>p \<in> set ps. ascii p" "R @ Y = concat (map frame ps)"
  shows "drain (R @ y) None =
           (fst (drain R None) @ fst (on_data y (snd (drain R None))),
            snd (on_data y (snd (drain R None))))"
proof -
  from stream_prefix [OF assms(2)] obtain ps1 r where
    R: "R = concat (map frame ps1) @ r" and sub: "set ps1 \<subseteq> set ps"
    and r: "r = [] \<or> (\<exists>p Z. p \<in> set ps \<and> Z \<noteq> [] \<and> r @ Z = frame p)"
    by blast
  have a1: "\<forall>p \<in> set ps1. ascii p" using assms(1) sub by blast
  have tail: "drain (r @ y) None =
           (fst (drain r None) @ fst (on_data y (snd (drain r None))),
            snd (on_data y (snd (drain r None))))"
  proof (cases "r = []")
    case True
    then show ?thesis by (simp add: drain_empty on_data_def)
  next
    case False
    with r obtain p Z where p: "p \<in> set ps" "Z \<noteq> []" "r @ Z = frame p" by blast
    then have ap: "ascii p" using assms(1) by blast
    from p(3) p(2) show ?thesis
    proof (cases rule: frame_prefix_cases)
      case (in_head Z')
      then show ?thesis by (simp add: drain_partial_head on_data_def)
    next
      case (in_body q)
      then show ?thesis
        by (simp add: drain_partial_body [OF ap] drain_resume [OF ap] on_data_def)
    qed
  qed
  have "drain (R @ y) None = (ps1 @ fst (drain (r @ y) None), snd (drain (r @ y) None))"
    using drain_frames [OF a1, of "r @ y"] by (simp add: R)
  moreover have "drain R None = (ps1 @ fst (drain r None), snd (drain r None))"
    using drain_frames [OF a1, of r] by (simp add: R)
  ultimately show ?thesis by (simp add: tail)
qed

lemma feed_stream:
  assumes "\<forall>p \<in> set ps. ascii p"
  shows "R @ concat chunks = concat (map frame ps) \<Longrightarrow>
         fst (drain R None) @ fst (feed chunks (snd (drain R None))) = ps \<and>
         snd (feed chunks (snd (drain R None))) = ([], None)"
proof (induction chunks arbitrary: R)
  case Nil
  then have "drain R None = (ps, [], None)"
    using drain_frames [OF assms, of "[]"] by (simp add: drain_empty)
  then show ?case by simp
next
  case (Cons y chunks)
  then have "(R @ y) @ concat chunks = concat (map frame ps)" by simp
  from Cons.IH [OF this] have
    "fst (drain (R @ y) None) @ fst (feed chunks (snd (drain (R @ y) None))) = ps"
    "snd (feed chunks (snd (drain (R @ y) None))) = ([], None)"
    by simp_all
  moreover have "R @ (y @ concat chunks) = concat (map frame ps)"
    using Cons.prems by simp
  note drain_in_two [OF assms this, of y]
  ultimately show ?case by (simp add: Let_def)
qed

text \<open>
  Frames of ASCII payloads, written one after the other and received in any chunks, are
  decoded to the payloads in order, and the decoder is left in its first state.
\<close>

lemma ascii_frames_round_trip:
  assumes "\<forall>p \<in> set ps. ascii p" "concat chunks = concat (map frame ps)"
  shows "feed chunks ([], None) = (ps, [], None)"
  using feed_stream [OF assms(1), of "[]" chunks] assms(2)
  by (simp add: drain_empty prod_eq_iff)

end
